theory Spec2Isabelle
  imports Main "HOL-Library.Word"
begin

section \<open>Return codes\<close>

text \<open>
  Every exported function of \<^verbatim>\<open>ec_ws.c\<close> returns an \<^verbatim>\<open>int\<close>: 0 for success, one of the
  \<^verbatim>\<open>ERR_*\<close> constants otherwise. The constants themselves are declared in a header; only
  their being pairwise different and non-zero matters, so a return value is an
  \<open>error option\<close>, with \<open>None\<close> for the value 0.
\<close>

datatype error =
    ERR_NULL
  | ERR_MEMORY
  | ERR_NOT_ENOUGH_DATA
  | ERR_VALUE
  | ERR_EC_POINT
  | ERR_EC_CURVE

type_synonym rc = "error option"

text \<open>
  Memory allocation is an effect of the environment. A function that allocates takes an
  allocation oracle: its allocation sites are numbered in source order, and site \<open>k\<close>
  yields memory exactly when the oracle holds at \<open>k\<close>.
\<close>

type_synonym alloc = "nat \<Rightarrow> bool"

definition all_ok :: alloc where
  "all_ok = (\<lambda>k. True)"

section \<open>The Montgomery context\<close>

datatype ModulusType = ModulusGeneric | ModulusP256 | ModulusP384 | ModulusP521

record MontContext =
  modulus_type :: ModulusType
  words :: nat
  bytes :: nat
  modulus :: int

text \<open>
  Modelled from the spec: the Montgomery arithmetic (\<^verbatim>\<open>mont.c\<close>) is an external collaborator
  of \<^verbatim>\<open>ec_ws.c\<close>. The spec gives it as add, sub, mul, the Fermat inverse, equality, is-zero,
  is-one and set-small-constant over the integers in \<open>[0, p)\<close>. A field element is
  modelled by the residue it stands for; the Montgomery form \<open>a * R mod p\<close> is a bijection
  on residues that these operations respect. The output pointer and the scratchpad of the
  C signatures are dropped, the result is returned.
\<close>

definition mont_add :: "int \<Rightarrow> int \<Rightarrow> MontContext \<Rightarrow> int" where
  "mont_add a c ctx = (a + c) mod modulus ctx"

definition mont_sub :: "int \<Rightarrow> int \<Rightarrow> MontContext \<Rightarrow> int" where
  "mont_sub a c ctx = (a - c) mod modulus ctx"

definition mont_mult :: "int \<Rightarrow> int \<Rightarrow> MontContext \<Rightarrow> int" where
  "mont_mult a c ctx = (a * c) mod modulus ctx"

definition mont_inv_prime :: "int \<Rightarrow> MontContext \<Rightarrow> int" where
  "mont_inv_prime a ctx = a ^ nat (modulus ctx - 2) mod modulus ctx"

definition mont_set :: "int \<Rightarrow> MontContext \<Rightarrow> int" where
  "mont_set v ctx = v mod modulus ctx"

definition mont_copy :: "int \<Rightarrow> MontContext \<Rightarrow> int" where
  "mont_copy a ctx = a"

definition mont_is_zero :: "int \<Rightarrow> MontContext \<Rightarrow> bool" where
  "mont_is_zero a ctx = (a = 0)"

definition mont_is_one :: "int \<Rightarrow> MontContext \<Rightarrow> bool" where
  "mont_is_one a ctx = (a = mont_set 1 ctx)"

definition mont_is_equal :: "int \<Rightarrow> int \<Rightarrow> MontContext \<Rightarrow> bool" where
  "mont_is_equal a c ctx = (a = c)"

definition mont_bytes :: "MontContext \<Rightarrow> nat" where
  "mont_bytes ctx = bytes ctx"

section \<open>Curve formulae\<close>

text \<open>
  The three formulae work on scratch copies of their inputs (the \<^verbatim>\<open>memcpy\<close> calls at the
  top of each), so that the outputs may alias the inputs. A point is passed and returned
  as a triple; each line below is one line of the C function, a \<open>let\<close> rebinding the
  variable the C statement overwrites.
\<close>

type_synonym proj = "int \<times> int \<times> int"

definition ec_projective_to_affine :: "proj \<Rightarrow> MontContext \<Rightarrow> int \<times> int" where
  "ec_projective_to_affine P ctx =
    (case P of (x1, y1, z1) \<Rightarrow>
      if mont_is_zero z1 ctx then (mont_set 0 ctx, mont_set 0 ctx)
      else
        let a = mont_inv_prime z1 ctx;
            x3 = mont_mult x1 a ctx;
            y3 = mont_mult y1 a ctx
        in (x3, y3))"

definition ec_full_double :: "proj \<Rightarrow> int \<Rightarrow> MontContext \<Rightarrow> proj" where
  "ec_full_double P b ctx =
    (case P of (x1, y1, z1) \<Rightarrow>
      let x = x1; y = y1; z = z1;
          t0 = mont_mult x x ctx;
          t1 = mont_mult y y ctx;
          t2 = mont_mult z z ctx;
          t3 = mont_mult x y ctx;
          t3 = mont_add t3 t3 ctx;
          z3 = mont_mult x z ctx;
          z3 = mont_add z3 z3 ctx;
          y3 = mont_mult b t2 ctx;
          y3 = mont_sub y3 z3 ctx;
          x3 = mont_add y3 y3 ctx;
          y3 = mont_add x3 y3 ctx;
          x3 = mont_sub t1 y3 ctx;
          y3 = mont_add t1 y3 ctx;
          y3 = mont_mult x3 y3 ctx;
          x3 = mont_mult x3 t3 ctx;
          t3 = mont_add t2 t2 ctx;
          t2 = mont_add t2 t3 ctx;
          z3 = mont_mult b z3 ctx;
          z3 = mont_sub z3 t2 ctx;
          z3 = mont_sub z3 t0 ctx;
          t3 = mont_add z3 z3 ctx;
          z3 = mont_add z3 t3 ctx;
          t3 = mont_add t0 t0 ctx;
          t0 = mont_add t3 t0 ctx;
          t0 = mont_sub t0 t2 ctx;
          t0 = mont_mult t0 z3 ctx;
          y3 = mont_add y3 t0 ctx;
          t0 = mont_mult y z ctx;
          t0 = mont_add t0 t0 ctx;
          z3 = mont_mult t0 z3 ctx;
          x3 = mont_sub x3 z3 ctx;
          z3 = mont_mult t0 t1 ctx;
          z3 = mont_add z3 z3 ctx;
          z3 = mont_add z3 z3 ctx
      in (x3, y3, z3))"

definition ec_mix_add :: "proj \<Rightarrow> int \<times> int \<Rightarrow> int \<Rightarrow> MontContext \<Rightarrow> proj" where
  "ec_mix_add P Q b ctx =
    (case P of (x13, y13, z13) \<Rightarrow> case Q of (x2, y2) \<Rightarrow>
      if mont_is_zero x2 ctx \<and> mont_is_zero y2 ctx then
        (mont_copy x13 ctx, mont_copy y13 ctx, mont_copy z13 ctx)
      else
      let x1 = x13; y1 = y13; z1 = z13;
          t0 = mont_mult x1 x2 ctx;
          t1 = mont_mult y1 y2 ctx;
          t3 = mont_add x2 y2 ctx;
          t4 = mont_add x1 y1 ctx;
          t3 = mont_mult t3 t4 ctx;
          t4 = mont_add t0 t1 ctx;
          t3 = mont_sub t3 t4 ctx;
          t4 = mont_mult y2 z1 ctx;
          t4 = mont_add t4 y1 ctx;
          y3 = mont_mult x2 z1 ctx;
          y3 = mont_add y3 x1 ctx;
          z3 = mont_mult b z1 ctx;
          x3 = mont_sub y3 z3 ctx;
          z3 = mont_add x3 x3 ctx;
          x3 = mont_add x3 z3 ctx;
          z3 = mont_sub t1 x3 ctx;
          x3 = mont_add t1 x3 ctx;
          y3 = mont_mult b y3 ctx;
          t1 = mont_add z1 z1 ctx;
          t2 = mont_add t1 z1 ctx;
          y3 = mont_sub y3 t2 ctx;
          y3 = mont_sub y3 t0 ctx;
          t1 = mont_add y3 y3 ctx;
          y3 = mont_add t1 y3 ctx;
          t1 = mont_add t0 t0 ctx;
          t0 = mont_add t1 t0 ctx;
          t0 = mont_sub t0 t2 ctx;
          t1 = mont_mult t4 y3 ctx;
          t2 = mont_mult t0 y3 ctx;
          y3 = mont_mult x3 z3 ctx;
          y3 = mont_add y3 t2 ctx;
          x3 = mont_mult t3 x3 ctx;
          x3 = mont_sub x3 t1 ctx;
          z3 = mont_mult t4 z3 ctx;
          t1 = mont_mult t3 t0 ctx;
          z3 = mont_add z3 t1 ctx
      in (x3, y3, z3))"

definition ec_full_add :: "proj \<Rightarrow> proj \<Rightarrow> int \<Rightarrow> MontContext \<Rightarrow> proj" where
  "ec_full_add P Q b ctx =
    (case P of (x13, y13, z13) \<Rightarrow> case Q of (x12, y12, z12) \<Rightarrow>
      let x1 = x13; y1 = y13; z1 = z13;
          x2 = x12; y2 = y12; z2 = z12;
          t0 = mont_mult x1 x2 ctx;
          t1 = mont_mult y1 y2 ctx;
          t2 = mont_mult z1 z2 ctx;
          t3 = mont_add x1 y1 ctx;
          t4 = mont_add x2 y2 ctx;
          t3 = mont_mult t3 t4 ctx;
          t4 = mont_add t0 t1 ctx;
          t3 = mont_sub t3 t4 ctx;
          t4 = mont_add y1 z1 ctx;
          x3 = mont_add y2 z2 ctx;
          t4 = mont_mult t4 x3 ctx;
          x3 = mont_add t1 t2 ctx;
          t4 = mont_sub t4 x3 ctx;
          x3 = mont_add x1 z1 ctx;
          y3 = mont_add x2 z2 ctx;
          x3 = mont_mult x3 y3 ctx;
          y3 = mont_add t0 t2 ctx;
          y3 = mont_sub x3 y3 ctx;
          z3 = mont_mult b t2 ctx;
          x3 = mont_sub y3 z3 ctx;
          z3 = mont_add x3 x3 ctx;
          x3 = mont_add x3 z3 ctx;
          z3 = mont_sub t1 x3 ctx;
          x3 = mont_add t1 x3 ctx;
          y3 = mont_mult b y3 ctx;
          t1 = mont_add t2 t2 ctx;
          t2 = mont_add t1 t2 ctx;
          y3 = mont_sub y3 t2 ctx;
          y3 = mont_sub y3 t0 ctx;
          t1 = mont_add y3 y3 ctx;
          y3 = mont_add t1 y3 ctx;
          t1 = mont_add t0 t0 ctx;
          t0 = mont_add t1 t0 ctx;
          t0 = mont_sub t0 t2 ctx;
          t1 = mont_mult t4 y3 ctx;
          t2 = mont_mult t0 y3 ctx;
          y3 = mont_mult x3 z3 ctx;
          y3 = mont_add y3 t2 ctx;
          x3 = mont_mult t3 x3 ctx;
          x3 = mont_sub x3 t1 ctx;
          z3 = mont_mult t4 z3 ctx;
          t1 = mont_mult t3 t0 ctx;
          z3 = mont_add z3 t1 ctx
      in (x3, y3, z3))"

section \<open>Bytes and words\<close>

type_synonym byte = "8 word"
type_synonym u64 = "64 word"

text \<open>
  Modelled from the spec: the big-integer byte/word utilities (\<^verbatim>\<open>endianess.h\<close>,
  \<^verbatim>\<open>multiply.h\<close>) are external collaborators. A byte string is big-endian; a word array
  holds 64-bit words, least significant word first.
\<close>

definition be_val :: "byte list \<Rightarrow> nat" where
  "be_val bs = foldl (\<lambda>a c. 256 * a + unat c) 0 bs"

fun be_bytes :: "nat \<Rightarrow> nat \<Rightarrow> byte list" where
  "be_bytes 0 v = []"
| "be_bytes (Suc n) v = be_bytes n (v div 256) @ [of_nat v]"

primrec words_val :: "u64 list \<Rightarrow> nat" where
  "words_val [] = 0"
| "words_val (w # ws) = unat w + 2 ^ 64 * words_val ws"

fun word_list_of :: "nat \<Rightarrow> nat \<Rightarrow> u64 list" where
  "word_list_of 0 v = []"
| "word_list_of (Suc n) v = of_nat v # word_list_of n (v div 2 ^ 64)"

text \<open>
  \<^verbatim>\<open>bytes_to_words(x, words, in, len)\<close> stores the number held by the \<open>len\<close> bytes of \<open>in\<close>
  into the \<open>words\<close> words of \<open>x\<close>; \<^verbatim>\<open>words_to_bytes(out, len, x, words)\<close> is its inverse,
  left-padding with zero bytes; \<^verbatim>\<open>addmul128(t, a, b0, b1, words)\<close> adds to the array \<open>t\<close>
  the product of the \<open>words\<close>-word number \<open>a\<close> by the 128-bit scalar \<open>(b0, b1)\<close>, the
  carry running to the end of \<open>t\<close>.
\<close>

definition bytes_to_words :: "nat \<Rightarrow> byte list \<Rightarrow> nat \<Rightarrow> u64 list" where
  "bytes_to_words nw inp len = word_list_of nw (be_val (take len inp))"

definition words_to_bytes :: "nat \<Rightarrow> u64 list \<Rightarrow> nat \<Rightarrow> byte list" where
  "words_to_bytes len ws nw = be_bytes len (words_val (take nw ws))"

definition addmul128 :: "u64 list \<Rightarrow> u64 list \<Rightarrow> u64 \<Rightarrow> u64 \<Rightarrow> nat \<Rightarrow> u64 list" where
  "addmul128 t a b0 b1 nw =
     word_list_of (length t) (words_val t + words_val (take nw a) * (unat b0 + 2 ^ 64 * unat b1))"

text \<open>
  Modelled from the spec: \<^verbatim>\<open>mont_from_bytes\<close> imports a big-endian number into the field,
  allocating the element (it fails when the allocation does); \<^verbatim>\<open>mont_to_bytes\<close> exports an
  element as exactly \<open>bytes ctx\<close> big-endian bytes. The spec leaves a number that is not
  below \<open>p\<close> open; the model reduces it, and the theorems assume numbers below \<open>p\<close>.
\<close>

definition mont_from_bytes :: "bool \<Rightarrow> byte list \<Rightarrow> nat \<Rightarrow> MontContext \<Rightarrow> error + int" where
  "mont_from_bytes ok number len ctx =
     (if \<not> ok then Inl ERR_MEMORY
      else Inr (int (be_val (take len number)) mod modulus ctx))"

definition mont_to_bytes :: "int \<Rightarrow> MontContext \<Rightarrow> byte list" where
  "mont_to_bytes a ctx = be_bytes (bytes ctx) (nat a)"

section \<open>Contexts and points\<close>

text \<open>
  An \<^verbatim>\<open>EcPoint\<close> owns its coordinates and refers to its \<^verbatim>\<open>EcContext\<close> by pointer; two
  points are of the same curve when the pointers are equal. A context pointer is an
  address, and the contexts live in a store read through the point. \<open>prot_g\<close> is the
  scattered comb table of the P-256 generator (NULL for other moduli): a list of
  subtables of affine points.
\<close>

type_synonym affine = "int \<times> int"

record EcContext =
  mont_ctx :: MontContext
  ctx_b :: int
  ctx_order :: "u64 list"
  prot_g :: "affine list list option"

type_synonym ctx_ptr = nat
type_synonym ctx_store = "ctx_ptr \<Rightarrow> EcContext"

record EcPoint =
  ec_ctx :: ctx_ptr
  ec_x :: int
  ec_y :: int
  ec_z :: int

definition coords :: "EcPoint \<Rightarrow> proj" where
  "coords p = (ec_x p, ec_y p, ec_z p)"

definition set_coords :: "EcPoint \<Rightarrow> proj \<Rightarrow> EcPoint" where
  "set_coords p P = (case P of (x3, y3, z3) \<Rightarrow> p\<lparr>ec_x := x3, ec_y := y3, ec_z := z3\<rparr>)"

text \<open>
  What a pointer cell (\<^verbatim>\<open>EcPoint **\<close>, \<^verbatim>\<open>EcContext **\<close>) holds when a constructor returns:
  NULL, a live object, or the address of an object the constructor has already freed.
\<close>

datatype 'a handle = Null | Live 'a | Freed

text \<open>
  The compile-time data of \<^verbatim>\<open>p256_table.c\<close> and the seed expansion are not part of the
  file; they are parameters of the model.
\<close>

record Extern =
  expand_seed :: "u64 \<Rightarrow> nat \<Rightarrow> int"
  p256_window_size :: nat
  p256_n_tables :: nat
  p256_points_per_table :: nat
  p256_tables :: "affine list list"

definition p256_modulus :: int where
  "p256_modulus = 2 ^ 256 - 2 ^ 224 + 2 ^ 192 + 2 ^ 96 - 1"

definition p384_modulus :: int where
  "p384_modulus = 2 ^ 384 - 2 ^ 128 - 2 ^ 96 + 2 ^ 32 - 1"

definition p521_modulus :: int where
  "p521_modulus = 2 ^ 521 - 1"

text \<open>
  The residues that the Montgomery words \<^verbatim>\<open>mont_Gx\<close> and \<^verbatim>\<open>mont_Gy\<close> of \<^verbatim>\<open>ec_ws_scalar\<close>
  stand for: the affine coordinates of the P-256 generator.
\<close>

definition mont_Gx :: int where
  "mont_Gx = 0x6B17D1F2E12C4247F8BCE6E563A440F277037D812DEB33A0F4A13945D898C296"

definition mont_Gy :: int where
  "mont_Gy = 0x4FE342E2FE1A7F9B8EE7EB4A7C0F9E162BCE33576B315ECECBB6406837BF51F5"

text \<open>
  Modelled from the spec: \<^verbatim>\<open>mont_context_init\<close> builds the Montgomery context of the
  modulus given as \<open>len\<close> big-endian bytes, and tags the known moduli.
\<close>

definition mont_context_init :: "bool \<Rightarrow> byte list \<Rightarrow> nat \<Rightarrow> error + MontContext" where
  "mont_context_init ok md len =
     (if \<not> ok then Inl ERR_MEMORY
      else
        let p = int (be_val (take len md)) in
        Inr \<lparr> modulus_type =
                (if p = p256_modulus then ModulusP256
                 else if p = p384_modulus then ModulusP384
                 else if p = p521_modulus then ModulusP521
                 else ModulusGeneric),
              words = (len + 7) div 8,
              bytes = len,
              modulus = p \<rparr>)"

text \<open>
  Modelled from the spec: \<open>scatter\<close> builds a table from records and fails only when
  allocation does; \<open>gather\<close> yields record \<open>i\<close> of the table. Reading past the table is
  undefined in C: \<open>gather\<close> yields \<open>None\<close> there.
\<close>

definition scatter :: "bool \<Rightarrow> 'a list \<Rightarrow> nat \<Rightarrow> error + 'a list" where
  "scatter ok recs n = (if ok then Inr (take n recs) else Inl ERR_MEMORY)"

definition gather :: "'a list \<Rightarrow> nat \<Rightarrow> 'a option" where
  "gather tab i = (if i < length tab then Some (tab ! i) else None)"

section \<open>Point operations\<close>

definition ec_ws_get_xy ::
  "ctx_store \<Rightarrow> alloc \<Rightarrow> byte list option \<Rightarrow> byte list option \<Rightarrow> nat \<Rightarrow> EcPoint option
     \<Rightarrow> rc \<times> byte list option \<times> byte list option" where
  "ec_ws_get_xy M A x y len ecp =
    (case (x, y, ecp) of
      (Some xb, Some yb, Some p) \<Rightarrow>
        let ctx = mont_ctx (M (ec_ctx p)) in
        if len \<noteq> mont_bytes ctx then (Some ERR_VALUE, x, y)
        else if \<not> A 0 then (Some ERR_MEMORY, x, y)
        else if \<not> A 1 then (Some ERR_MEMORY, x, y)
        else if \<not> A 2 then (Some ERR_MEMORY, x, y)
        else
          let (xw, yw) = ec_projective_to_affine (coords p) ctx in
          if \<not> A 3 then (Some ERR_MEMORY, x, y)
          else if \<not> A 4 then (Some ERR_MEMORY, Some (mont_to_bytes xw ctx), y)
          else (None, Some (mont_to_bytes xw ctx), Some (mont_to_bytes yw ctx))
    | _ \<Rightarrow> (Some ERR_NULL, x, y))"

definition ec_ws_double :: "ctx_store \<Rightarrow> alloc \<Rightarrow> EcPoint option \<Rightarrow> rc \<times> EcPoint option" where
  "ec_ws_double M A ecp =
    (case ecp of
      None \<Rightarrow> (Some ERR_NULL, None)
    | Some p \<Rightarrow>
        let ctx = mont_ctx (M (ec_ctx p)) in
        if \<not> A 0 then (Some ERR_MEMORY, Some p)
        else (None, Some (set_coords p (ec_full_double (coords p) (ctx_b (M (ec_ctx p))) ctx))))"

definition ec_ws_add ::
  "ctx_store \<Rightarrow> alloc \<Rightarrow> EcPoint option \<Rightarrow> EcPoint option \<Rightarrow> rc \<times> EcPoint option" where
  "ec_ws_add M A ecpa ecpb =
    (case (ecpa, ecpb) of
      (Some pa, Some pb) \<Rightarrow>
        if ec_ctx pa \<noteq> ec_ctx pb then (Some ERR_EC_CURVE, ecpa)
        else
          let ctx = mont_ctx (M (ec_ctx pa)) in
          if \<not> A 0 then (Some ERR_MEMORY, ecpa)
          else (None, Some (set_coords pa
                  (ec_full_add (coords pa) (coords pb) (ctx_b (M (ec_ctx pa))) ctx)))
    | _ \<Rightarrow> (Some ERR_NULL, ecpa))"

definition ec_ws_normalize :: "ctx_store \<Rightarrow> alloc \<Rightarrow> EcPoint option \<Rightarrow> rc \<times> EcPoint option" where
  "ec_ws_normalize M A ecp =
    (case ecp of
      None \<Rightarrow> (Some ERR_NULL, None)
    | Some p \<Rightarrow>
        let ctx = mont_ctx (M (ec_ctx p)) in
        if \<not> A 0 then (Some ERR_MEMORY, Some p)
        else if \<not> mont_is_zero (ec_z p) ctx then
          let (x3, y3) = ec_projective_to_affine (coords p) ctx in
          (None, Some (p\<lparr>ec_x := x3, ec_y := y3, ec_z := mont_set 1 ctx\<rparr>))
        else (None, Some p))"


text \<open>
  \<^verbatim>\<open>ec_ws_copy\<close> copies the coordinates with the word count of the source's context, into
  the buffers of the destination. The C structure does not record how many words those
  buffers hold: it is the word count of the context the destination was created in,
  passed here as \<open>cap\<close>. When the source's context has more words the copy writes past
  the buffers, which is undefined behaviour: the result is \<open>None\<close>.
\<close>

definition ec_ws_copy ::
  "ctx_store \<Rightarrow> nat \<Rightarrow> EcPoint option \<Rightarrow> EcPoint option \<Rightarrow> (rc \<times> EcPoint option) option" where
  "ec_ws_copy M cap ecp1 ecp2 =
    (case (ecp1, ecp2) of
      (Some p1, Some p2) \<Rightarrow>
        let ctx = mont_ctx (M (ec_ctx p2)) in
        if cap < words ctx then None
        else
          Some (None, Some (p1\<lparr>ec_ctx := ec_ctx p2,
                                 ec_x := mont_copy (ec_x p2) ctx,
                                 ec_y := mont_copy (ec_y p2) ctx,
                                 ec_z := mont_copy (ec_z p2) ctx\<rparr>))
    | _ \<Rightarrow> Some (Some ERR_NULL, ecp1))"

definition ec_ws_cmp :: "ctx_store \<Rightarrow> alloc \<Rightarrow> EcPoint option \<Rightarrow> EcPoint option \<Rightarrow> rc" where
  "ec_ws_cmp M A ecp1 ecp2 =
    (case (ecp1, ecp2) of
      (Some p1, Some p2) \<Rightarrow>
        if ec_ctx p1 \<noteq> ec_ctx p2 then Some ERR_EC_CURVE
        else
          let ctx = mont_ctx (M (ec_ctx p1));
              p1_is_pai = mont_is_zero (ec_z p1) ctx;
              p2_is_pai = mont_is_zero (ec_z p2) ctx
          in
          if p1_is_pai \<or> p2_is_pai then
            (if p1_is_pai \<and> p2_is_pai then None else Some ERR_VALUE)
          else if \<not> A 0 then Some ERR_MEMORY
          else
            let wb = mont_mult (ec_x p1) (ec_z p2) ctx;
                wd = mont_mult (ec_x p2) (ec_z p1) ctx;
                we = mont_mult (ec_y p1) (ec_z p2) ctx;
                wf = mont_mult (ec_y p2) (ec_z p1) ctx
            in if mont_is_equal wb wd ctx \<and> mont_is_equal we wf ctx then None
               else Some ERR_VALUE
    | _ \<Rightarrow> Some ERR_NULL)"

section \<open>Bit windows\<close>

text \<open>
  Modelled from the spec: the bit-window iterators (\<^verbatim>\<open>modexp_utils.c\<close>) walk a big-endian
  scalar in windows of \<open>window_size\<close> bits. There are \<open>ceil (8 * len / window_size)\<close> windows.
  The left-to-right iterator emits them from the most significant one, the first being
  short when the bit length is not a multiple of the window size; the right-to-left
  iterator emits them from the least significant one. \<open>scan\<close> counts the windows emitted.
\<close>

record BitWindow =
  window_size :: nat
  nr_windows :: nat
  bw_exp :: "byte list"
  scan :: nat

definition init_bit_window_lr :: "nat \<Rightarrow> byte list \<Rightarrow> nat \<Rightarrow> BitWindow" where
  "init_bit_window_lr w e exp_len =
     \<lparr> window_size = w, nr_windows = (exp_len * 8 + w - 1) div w,
       bw_exp = take exp_len e, scan = 0 \<rparr>"

definition get_next_digit_lr :: "BitWindow \<Rightarrow> nat \<times> BitWindow" where
  "get_next_digit_lr bw =
     (be_val (bw_exp bw) div 2 ^ (window_size bw * (nr_windows bw - 1 - scan bw))
        mod 2 ^ window_size bw,
      bw\<lparr>scan := scan bw + 1\<rparr>)"

definition init_bit_window_rl :: "nat \<Rightarrow> byte list \<Rightarrow> nat \<Rightarrow> BitWindow" where
  "init_bit_window_rl w e exp_len =
     \<lparr> window_size = w, nr_windows = (exp_len * 8 + w - 1) div w,
       bw_exp = take exp_len e, scan = 0 \<rparr>"

definition get_next_digit_rl :: "BitWindow \<Rightarrow> nat \<times> BitWindow" where
  "get_next_digit_rl bw =
     (be_val (bw_exp bw) div 2 ^ (window_size bw * scan bw) mod 2 ^ window_size bw,
      bw\<lparr>scan := scan bw + 1\<rparr>)"

section \<open>Scalar multiplication\<close>

definition WINDOW_SIZE_BITS :: nat where
  "WINDOW_SIZE_BITS = 4"

definition WINDOW_SIZE_ITEMS :: nat where
  "WINDOW_SIZE_ITEMS = 2 ^ WINDOW_SIZE_BITS"

text \<open>Entry \<open>i\<close> of the window O, P, 2P, ..., 15P that \<^verbatim>\<open>ec_scalar\<close> builds.\<close>

fun ec_window :: "proj \<Rightarrow> int \<Rightarrow> MontContext \<Rightarrow> nat \<Rightarrow> proj" where
  "ec_window P b ctx 0 = (mont_set 0 ctx, mont_set 1 ctx, mont_set 0 ctx)"
| "ec_window P b ctx (Suc 0) =
     (case P of (x1, y1, z1) \<Rightarrow> (mont_copy x1 ctx, mont_copy y1 ctx, mont_copy z1 ctx))"
| "ec_window P b ctx (Suc (Suc i)) =
     (case P of (x1, y1, z1) \<Rightarrow>
        if mont_is_one z1 ctx then ec_mix_add (ec_window P b ctx (Suc i)) (x1, y1) b ctx
        else ec_full_add (ec_window P b ctx (Suc i)) (x1, y1, z1) b ctx)"

text \<open>
  The loop over the windows: \<open>n\<close> windows are left. A \<open>gather\<close> past a table is undefined
  behaviour, the result \<open>None\<close>.
\<close>

fun ec_ladder ::
  "nat \<Rightarrow> BitWindow \<Rightarrow> int list \<Rightarrow> int list \<Rightarrow> int list \<Rightarrow> proj \<Rightarrow> int \<Rightarrow> MontContext
     \<Rightarrow> proj option" where
  "ec_ladder 0 bw prot_x prot_y prot_z acc b ctx = Some acc"
| "ec_ladder (Suc n) bw prot_x prot_y prot_z acc b ctx =
     (case get_next_digit_lr bw of (index, bw') \<Rightarrow>
        case (gather prot_x index, gather prot_y index, gather prot_z index) of
          (Some xw, Some yw, Some zw) \<Rightarrow>
            let acc = ((\<lambda>Q. ec_full_double Q b ctx) ^^ WINDOW_SIZE_BITS) acc;
                acc = ec_full_add acc (xw, yw, zw) b ctx
            in ec_ladder n bw' prot_x prot_y prot_z acc b ctx
        | _ \<Rightarrow> None)"

text \<open>
  \<^verbatim>\<open>ec_scalar\<close>: \<open>P3\<close> is what the output coordinates hold on entry, \<open>P1\<close> the input point.
  Allocation sites 0 to 2 are the \<^verbatim>\<open>alloc(n)\<close> of the gathered coordinates, sites 3 to 50
  those of the window, sites 51 to 53 the three \<open>scatter\<close> calls. The window arrays are
  cleared only after sites 0 to 2: when one of these fails, the cleanup frees the
  uninitialised pointers of the window, which is undefined behaviour (the result \<open>None\<close>).
\<close>

definition ec_scalar ::
  "proj \<Rightarrow> proj \<Rightarrow> int \<Rightarrow> byte list \<Rightarrow> nat \<Rightarrow> u64 \<Rightarrow> alloc \<Rightarrow> MontContext
     \<Rightarrow> (rc \<times> proj) option" where
  "ec_scalar P3 P1 b e exp_size seed A ctx =
    (if \<not> (A 0 \<and> A 1 \<and> A 2) then None
     else if \<not> list_all A [3 ..< 3 + 3 * WINDOW_SIZE_ITEMS] then Some (Some ERR_MEMORY, P3)
     else
       let window = map (ec_window P1 b ctx) [0 ..< WINDOW_SIZE_ITEMS] in
       case scatter (A 51) (map fst window) WINDOW_SIZE_ITEMS of
         Inl er \<Rightarrow> Some (Some er, P3)
       | Inr prot_x \<Rightarrow>
       case scatter (A 52) (map (fst \<circ> snd) window) WINDOW_SIZE_ITEMS of
         Inl er \<Rightarrow> Some (Some er, P3)
       | Inr prot_y \<Rightarrow>
       case scatter (A 53) (map (snd \<circ> snd) window) WINDOW_SIZE_ITEMS of
         Inl er \<Rightarrow> Some (Some er, P3)
       | Inr prot_z \<Rightarrow>
         let acc = (mont_set 0 ctx, mont_set 1 ctx, mont_set 0 ctx);
             e' = dropWhile (\<lambda>c. c = 0) (take exp_size e);
             bw = init_bit_window_lr WINDOW_SIZE_BITS e' (length e')
         in case ec_ladder (nr_windows bw) bw prot_x prot_y prot_z acc b ctx of
              None \<Rightarrow> None
            | Some acc \<Rightarrow> Some (None, acc))"

fun ec_comb ::
  "nat \<Rightarrow> nat \<Rightarrow> BitWindow \<Rightarrow> affine list list \<Rightarrow> proj \<Rightarrow> int \<Rightarrow> MontContext
     \<Rightarrow> proj option" where
  "ec_comb 0 i bw g acc b ctx = Some acc"
| "ec_comb (Suc n) i bw g acc b ctx =
     (case get_next_digit_rl bw of (index, bw') \<Rightarrow>
        case gather g i of
          None \<Rightarrow> None
        | Some tab \<Rightarrow>
            (case gather tab index of
               None \<Rightarrow> None
             | Some (xw, yw) \<Rightarrow>
                 ec_comb n (Suc i) bw' g (ec_mix_add acc (xw, yw) b ctx) b ctx))"

definition ec_scalar_g_p256 ::
  "Extern \<Rightarrow> int \<Rightarrow> byte list \<Rightarrow> nat \<Rightarrow> u64 \<Rightarrow> affine list list \<Rightarrow> MontContext
     \<Rightarrow> (rc \<times> proj) option" where
  "ec_scalar_g_p256 E b e exp_size seed g ctx =
    (let acc = (mont_set 0 ctx, mont_set 1 ctx, mont_set 0 ctx);
         e' = dropWhile (\<lambda>c. c = 0) (take exp_size e);
         bw = init_bit_window_rl (p256_window_size E) e' (length e')
     in if nr_windows bw > p256_n_tables E then Some (Some ERR_VALUE, acc)
        else case ec_comb (nr_windows bw) 0 bw g acc b ctx of
               None \<Rightarrow> None
             | Some acc \<Rightarrow> Some (None, acc))"

text \<open>
  \<^verbatim>\<open>blind_scalar_factor\<close>: site 0 is the blinded scalar, site 1 the word array. The result
  is the return code, what \<^verbatim>\<open>*blind_scalar\<close> holds, and \<^verbatim>\<open>*blind_scalar_len\<close>. Lengths are
  natural numbers: a \<^verbatim>\<open>size_t\<close> does not wrap for a buffer that fits the address space.
\<close>

definition blind_scalar_factor ::
  "alloc \<Rightarrow> byte list \<Rightarrow> nat \<Rightarrow> 32 word \<Rightarrow> u64 list \<Rightarrow> nat \<Rightarrow> rc \<times> byte list option \<times> nat" where
  "blind_scalar_factor A scalar scalar_len R_seed order order_words =
    (let scalar_words = (scalar_len + 7) div 8;
         blind_scalar_words = max (order_words + 2) (scalar_words + 2);
         blind_scalar_len = blind_scalar_words * 8
     in if \<not> A 0 then (Some ERR_MEMORY, None, blind_scalar_len)
        else if \<not> A 1 then (Some ERR_MEMORY, Some (replicate blind_scalar_len 0), blind_scalar_len)
        else
          let output_u64 = bytes_to_words blind_scalar_words scalar scalar_len;
              output_u64 = addmul128 output_u64 order (ucast R_seed) 0 order_words;
              blind_scalar = words_to_bytes blind_scalar_len output_u64 blind_scalar_words
          in (None, Some blind_scalar, blind_scalar_len))"

text \<open>
  \<^verbatim>\<open>ec_ws_scalar\<close>: sites 0 and 1 are the two workplaces; with blinding, site 2 is the
  blinding factor, sites 3 and 4 belong to \<open>blind_scalar_factor\<close> and the sites from 5 to
  \<open>ec_scalar\<close>; without blinding the sites from 2 belong to \<open>ec_scalar\<close>. The generator
  test compares the first four words of the coordinates with \<^verbatim>\<open>mont_Gx\<close> and \<^verbatim>\<open>mont_Gy\<close>.
  The result is \<open>None\<close> where the behaviour of the program is undefined: a read outside a
  table, or the cleanup of \<open>ec_scalar\<close> on uninitialised pointers.
\<close>

definition ec_ws_scalar ::
  "Extern \<Rightarrow> ctx_store \<Rightarrow> alloc \<Rightarrow> EcPoint option \<Rightarrow> byte list option \<Rightarrow> nat \<Rightarrow> u64
     \<Rightarrow> (rc \<times> EcPoint option) option" where
  "ec_ws_scalar E M A ecp k len seed =
    (case (ecp, k) of
      (Some p, Some kb) \<Rightarrow>
        let ec = M (ec_ctx p); ctx = mont_ctx ec in
        if len = 0 then Some (Some ERR_NOT_ENOUGH_DATA, ecp)
        else if \<not> A 0 then Some (Some ERR_MEMORY, ecp)
        else if \<not> A 1 then Some (Some ERR_MEMORY, ecp)
        else if modulus_type ctx = ModulusP256
                \<and> ec_x p = mont_Gx \<and> ec_y p = mont_Gy \<and> mont_is_one (ec_z p) ctx then
          map_option (\<lambda>(res, P). (res, Some (set_coords p P)))
            (ec_scalar_g_p256 E (ctx_b ec) kb len (seed + 2)
               (case prot_g ec of None \<Rightarrow> [] | Some t \<Rightarrow> t) ctx)
        else if seed \<noteq> 0 then
          if \<not> A 2 then Some (Some ERR_MEMORY, ecp)
          else
            let factor = expand_seed E seed (mont_bytes ctx);
                p = p\<lparr>ec_x := mont_mult (ec_x p) factor ctx,
                       ec_y := mont_mult (ec_y p) factor ctx,
                       ec_z := mont_mult (ec_z p) factor ctx\<rparr>
            in case blind_scalar_factor (\<lambda>i. A (3 + i)) kb len (ucast seed)
                      (ctx_order ec) (words ctx) of
                 (Some er, _) \<Rightarrow> Some (Some er, Some p)
               | (None, None, _) \<Rightarrow> None
               | (None, Some blind_scalar, blind_scalar_len) \<Rightarrow>
                   map_option (\<lambda>(res, P). (res, Some (set_coords p P)))
                     (ec_scalar (coords p) (coords p) (ctx_b ec) blind_scalar blind_scalar_len
                        (seed + 1) (\<lambda>i. A (5 + i)) ctx)
        else
          map_option (\<lambda>(res, P). (res, Some (set_coords p P)))
            (ec_scalar (coords p) (coords p) (ctx_b ec) kb len (seed + 1) (\<lambda>i. A (2 + i)) ctx)
    | _ \<Rightarrow> Some (Some ERR_NULL, ecp))"

section \<open>Constructors\<close>

definition ec_scramble_g_p256 ::
  "Extern \<Rightarrow> bool \<Rightarrow> MontContext \<Rightarrow> u64 \<Rightarrow> affine list list option" where
  "ec_scramble_g_p256 E ok ctx seed =
     (if ok then Some (map (take (p256_points_per_table E)) (take (p256_n_tables E) (p256_tables E)))
      else None)"

text \<open>
  \<^verbatim>\<open>ec_ws_new_context\<close>: site 0 is the context, 1 the Montgomery context, 2 the parameter
  b, 3 the order, 4 the generator table. On a failure after site 0 the context is freed
  and the caller's cell keeps its address. The return value of \<open>bytes_to_words\<close> is
  discarded: a NULL order leaves the zeroed array.
\<close>

definition ec_ws_new_context ::
  "Extern \<Rightarrow> alloc \<Rightarrow> EcContext handle option \<Rightarrow> byte list option \<Rightarrow> byte list option
     \<Rightarrow> byte list option \<Rightarrow> nat \<Rightarrow> u64 \<Rightarrow> rc \<times> EcContext handle option" where
  "ec_ws_new_context E A pec_ctx md b order len seed =
    (case (pec_ctx, md, b) of
      (Some cell, Some mdb, Some bb) \<Rightarrow>
        if len = 0 then (Some ERR_NOT_ENOUGH_DATA, Some Null)
        else if \<not> A 0 then (Some ERR_MEMORY, Some Null)
        else
          (case mont_context_init (A 1) mdb len of
             Inl er \<Rightarrow> (Some er, Some Freed)
           | Inr ctx \<Rightarrow>
          (case mont_from_bytes (A 2) bb len ctx of
             Inl er \<Rightarrow> (Some er, Some Freed)
           | Inr bm \<Rightarrow>
               let order_words = ((len mod 2 ^ 32 + 7) mod 2 ^ 32) div 8 in
               if \<not> A 3 then (Some ERR_MEMORY, Some Freed)
               else
                 let ow = (case order of
                             None \<Rightarrow> replicate order_words 0
                           | Some ob \<Rightarrow> bytes_to_words order_words ob len)
                 in
                 if modulus_type ctx = ModulusP256 then
                   (case ec_scramble_g_p256 E (A 4) ctx seed of
                      None \<Rightarrow> (Some ERR_MEMORY, Some Freed)
                    | Some g \<Rightarrow>
                        (None, Some (Live \<lparr> mont_ctx = ctx, ctx_b = bm, ctx_order = ow,
                                             prot_g = Some g \<rparr>)))
                 else
                   (None, Some (Live \<lparr> mont_ctx = ctx, ctx_b = bm, ctx_order = ow,
                                        prot_g = None \<rparr>))))
    | _ \<Rightarrow> (Some ERR_NULL, pec_ctx))"

text \<open>
  \<^verbatim>\<open>ec_ws_new_point\<close>: site 0 is the point, 1 to 3 its coordinates, 4 the workplace of the
  curve test. The workplace is used without a test for NULL: the result is \<open>None\<close>
  (undefined behaviour) when site 4 fails.
\<close>

definition ec_ws_new_point ::
  "ctx_store \<Rightarrow> alloc \<Rightarrow> EcPoint handle option \<Rightarrow> byte list option \<Rightarrow> byte list option
     \<Rightarrow> nat \<Rightarrow> ctx_ptr option \<Rightarrow> (rc \<times> EcPoint handle option) option" where
  "ec_ws_new_point M A pecp x y len ec_ctxp =
    (case (pecp, x, y, ec_ctxp) of
      (Some cell, Some xb, Some yb, Some c) \<Rightarrow>
        let ec = M c; ctx = mont_ctx ec in
        if len = 0 then Some (Some ERR_NOT_ENOUGH_DATA, pecp)
        else if len > bytes ctx then Some (Some ERR_VALUE, pecp)
        else if \<not> A 0 then Some (Some ERR_MEMORY, Some Null)
        else
          (case mont_from_bytes (A 1) xb len ctx of
             Inl er \<Rightarrow> Some (Some er, Some Null)
           | Inr px \<Rightarrow>
          (case mont_from_bytes (A 2) yb len ctx of
             Inl er \<Rightarrow> Some (Some er, Some Null)
           | Inr py \<Rightarrow>
               if \<not> A 3 then Some (Some ERR_MEMORY, Some Null)
               else
                 let pz = mont_set 1 ctx in
                 if mont_is_zero px ctx \<and> mont_is_zero py ctx then
                   Some (None, Some (Live \<lparr> ec_ctx = c, ec_x = mont_set 0 ctx,
                                             ec_y = mont_set 1 ctx, ec_z = mont_set 0 ctx \<rparr>))
                 else if \<not> A 4 then None
                 else
                   let wa = mont_mult py py ctx;
                       wc = mont_mult px px ctx;
                       wc = mont_mult wc px ctx;
                       wc = mont_sub wc px ctx;
                       wc = mont_sub wc px ctx;
                       wc = mont_sub wc px ctx;
                       wc = mont_add wc (ctx_b ec) ctx;
                       res = (\<not> mont_is_equal wa wc ctx)
                   in if res then Some (Some ERR_EC_POINT, Some Null)
                      else Some (None, Some (Live \<lparr> ec_ctx = c, ec_x = px, ec_y = py,
                                                       ec_z = pz \<rparr>))))
    | _ \<Rightarrow> Some (Some ERR_NULL, pecp))"

section \<open>Notions used to state the properties\<close>

text \<open>A small curve for concrete instances: \<open>y\<^sup>2 = x\<^sup>3 - 3x + 3\<close> over the integers modulo 7.\<close>

definition ctx7 :: MontContext where
  "ctx7 = \<lparr> modulus_type = ModulusGeneric, words = 1, bytes = 1, modulus = 7 \<rparr>"

definition curve7 :: EcContext where
  "curve7 = \<lparr> mont_ctx = ctx7, ctx_b = 3, ctx_order = [6], prot_g = None \<rparr>"

definition store7 :: ctx_store where
  "store7 = (\<lambda>c. curve7)"

definition point7 :: "int \<Rightarrow> int \<Rightarrow> int \<Rightarrow> EcPoint" where
  "point7 x1 y1 z1 = \<lparr> ec_ctx = 0, ec_x = x1, ec_y = y1, ec_z = z1 \<rparr>"

text \<open>Primality, by trial division.\<close>

definition is_prime :: "nat \<Rightarrow> bool" where
  "is_prime p = (1 < p \<and> list_all (\<lambda>d. \<not> d dvd p) [2 ..< p])"

text \<open>
  The polynomials of the complete formulae of Renes, Costello and Batina for \<open>a = -3\<close>:
  doubling (their algorithm 6) and addition (algorithm 4).
\<close>

definition dbl_X :: "int \<Rightarrow> int \<Rightarrow> int \<Rightarrow> int \<Rightarrow> int" where
  "dbl_X x y z b = 2*x*y*(y*y + 3*(2*x*z - b*z*z)) - 6*y*z*(2*b*x*z - x*x - 3*z*z)"

definition dbl_Y :: "int \<Rightarrow> int \<Rightarrow> int \<Rightarrow> int \<Rightarrow> int" where
  "dbl_Y x y z b =
     (y*y - 3*(2*x*z - b*z*z))*(y*y + 3*(2*x*z - b*z*z))
       + 3*(3*x*x - 3*z*z)*(2*b*x*z - x*x - 3*z*z)"

definition dbl_Z :: "int \<Rightarrow> int \<Rightarrow> int \<Rightarrow> int \<Rightarrow> int" where
  "dbl_Z x y z b = 8*y*y*y*z"

definition add_X :: "proj \<Rightarrow> proj \<Rightarrow> int \<Rightarrow> int" where
  "add_X P Q b = (case P of (x1, y1, z1) \<Rightarrow> case Q of (x2, y2, z2) \<Rightarrow>
     (x1*y2 + x2*y1) * (y1*y2 + 3*(x1*z2 + x2*z1 - b*z1*z2))
       - 3*(y1*z2 + y2*z1) * (b*(x1*z2 + x2*z1) - x1*x2 - 3*z1*z2))"

definition add_Y :: "proj \<Rightarrow> proj \<Rightarrow> int \<Rightarrow> int" where
  "add_Y P Q b = (case P of (x1, y1, z1) \<Rightarrow> case Q of (x2, y2, z2) \<Rightarrow>
     3*(3*x1*x2 - 3*z1*z2) * (b*(x1*z2 + x2*z1) - x1*x2 - 3*z1*z2)
       + (y1*y2 - 3*(x1*z2 + x2*z1 - b*z1*z2)) * (y1*y2 + 3*(x1*z2 + x2*z1 - b*z1*z2)))"

definition add_Z :: "proj \<Rightarrow> proj \<Rightarrow> int \<Rightarrow> int" where
  "add_Z P Q b = (case P of (x1, y1, z1) \<Rightarrow> case Q of (x2, y2, z2) \<Rightarrow>
     (y1*z2 + y2*z1) * (y1*y2 - 3*(x1*z2 + x2*z1 - b*z1*z2))
       + (x1*y2 + x2*y1) * (3*x1*x2 - 3*z1*z2))"

text \<open>
  A triple is on the curve when it satisfies the projective equation
  \<open>Y\<^sup>2 Z = X\<^sup>3 - 3 X Z\<^sup>2 + b Z\<^sup>3\<close> modulo \<open>p\<close>; the point-at-infinity (0, 1, 0) does. A
  valid point has its coordinates in \<open>[0, p)\<close> and is on the curve of its context.
\<close>

definition on_curve :: "proj \<Rightarrow> int \<Rightarrow> MontContext \<Rightarrow> bool" where
  "on_curve P b ctx = (case P of (x1, y1, z1) \<Rightarrow>
     (y1 * y1 * z1) mod modulus ctx
       = (x1 * x1 * x1 - 3 * x1 * z1 * z1 + b * z1 * z1 * z1) mod modulus ctx)"

definition in_field :: "int \<Rightarrow> MontContext \<Rightarrow> bool" where
  "in_field a ctx = (0 \<le> a \<and> a < modulus ctx)"

definition valid_point :: "ctx_store \<Rightarrow> EcPoint \<Rightarrow> bool" where
  "valid_point M p =
     (let ec = M (ec_ctx p); ctx = mont_ctx ec in
      in_field (ec_x p) ctx \<and> in_field (ec_y p) ctx \<and> in_field (ec_z p) ctx
      \<and> on_curve (coords p) (ctx_b ec) ctx)"

text \<open>
  The affine coordinates of a point after \<open>ec_ws_normalize\<close>, as \<open>ec_ws_get_xy\<close> exports
  them (every allocation succeeding).
\<close>

definition normalized_xy :: "ctx_store \<Rightarrow> EcPoint \<Rightarrow> rc \<times> byte list option \<times> byte list option" where
  "normalized_xy M p =
     ec_ws_get_xy M all_ok (Some []) (Some []) (mont_bytes (mont_ctx (M (ec_ctx p))))
       (snd (ec_ws_normalize M all_ok (Some p)))"

text \<open>
  The test of \<^verbatim>\<open>ec_ws_scalar\<close> that selects the fast path for the P-256 generator.
\<close>

definition generator_path :: "ctx_store \<Rightarrow> EcPoint \<Rightarrow> bool" where
  "generator_path M p =
     (let ctx = mont_ctx (M (ec_ctx p)) in
      modulus_type ctx = ModulusP256 \<and> ec_x p = mont_Gx \<and> ec_y p = mont_Gy
      \<and> mont_is_one (ec_z p) ctx)"

text \<open>
  A P-256 instance with the dimensions of a comb of 5-bit windows over 256-bit scalars:
  52 subtables of 32 points. The subtables themselves are left empty: the instance is
  used only on a path that does not read them.
\<close>

definition extern_p256 :: Extern where
  "extern_p256 = \<lparr> expand_seed = (\<lambda>s n. 2), p256_window_size = 5, p256_n_tables = 52,
                    p256_points_per_table = 32, p256_tables = [] \<rparr>"

definition ctx_p256 :: MontContext where
  "ctx_p256 = \<lparr> modulus_type = ModulusP256, words = 4, bytes = 32, modulus = p256_modulus \<rparr>"

definition curve_p256 :: EcContext where
  "curve_p256 =
     \<lparr> mont_ctx = ctx_p256,
       ctx_b = 0x5AC635D8AA3A93E7B3EBBD55769886BC651D06B0CC53B0F63BCE3C3E27D2604B,
       ctx_order = word_list_of 4 0xFFFFFFFF00000000FFFFFFFFFFFFFFFFBCE6FAADA7179E84F3B9CAC2FC632551,
       prot_g = Some [] \<rparr>"

definition generator_p256 :: EcPoint where
  "generator_p256 = \<lparr> ec_ctx = 0, ec_x = mont_Gx, ec_y = mont_Gy, ec_z = 1 \<rparr>"

text \<open>
  A store with two contexts: the curve modulo 7 at address 0 and P-256 at every other
  address; and the P-256 generator as a point of the P-256 context there.
\<close>

definition store2 :: ctx_store where
  "store2 = (\<lambda>c. if c = 0 then curve7 else curve_p256)"

definition generator_p256' :: EcPoint where
  "generator_p256' = generator_p256\<lparr>ec_ctx := 1\<rparr>"

text \<open>
  The point that \<^verbatim>\<open>ec_ws_scalar\<close> works on when it blinds: the coordinates of P multiplied
  by the factor that \<open>expand_seed\<close> derives from the seed.
\<close>

definition blinded :: "Extern \<Rightarrow> ctx_store \<Rightarrow> EcPoint \<Rightarrow> u64 \<Rightarrow> EcPoint" where
  "blinded E M p seed =
     (let ctx = mont_ctx (M (ec_ctx p)); factor = expand_seed E seed (mont_bytes ctx) in
      p\<lparr>ec_x := mont_mult (ec_x p) factor ctx,
        ec_y := mont_mult (ec_y p) factor ctx,
        ec_z := mont_mult (ec_z p) factor ctx\<rparr>)"


text \<open>
  Modelled from the spec: subtable \<open>i\<close> of the comb of the generator holds the points
  \<open>(2\<^bsup>i \<sqdot> w\<^esup> \<sqdot> G) \<sqdot> j\<close> in affine form, \<open>j\<close> from 0, the point-at-infinity being encoded
  as (0, 0). \<open>comb_table_ok E g G\<close> states what a one-byte scalar of value 1 reads of such
  a table: entry 0 of every subtable is (0, 0), entry 1 of the first subtable is G, and
  the comb has a subtable for each window of one byte.
\<close>

definition comb_table_ok :: "Extern \<Rightarrow> affine list list \<Rightarrow> affine \<Rightarrow> bool" where
  "comb_table_ok E g G =
     (0 < p256_window_size E \<and> length g = p256_n_tables E
      \<and> (8 + p256_window_size E - 1) div p256_window_size E \<le> p256_n_tables E
      \<and> list_all (\<lambda>t. gather t 0 = Some (0, 0)) g
      \<and> (case gather g 0 of None \<Rightarrow> False | Some t \<Rightarrow> gather t 1 = Some G))"



text \<open>
  The entries of the P-256 comb that a one-byte scalar of value 1 reads: the
  point-at-infinity at index 0 of each of the 52 subtables, and the generator at index 1
  of the first; and the P-256 context with that table.
\<close>

definition comb_entries_p256 :: "affine list list" where
  "comb_entries_p256 = [(0, 0), (mont_Gx, mont_Gy)] # replicate 51 [(0, 0)]"

definition store_p256_comb :: ctx_store where
  "store_p256_comb = (\<lambda>c. curve_p256\<lparr>prot_g := Some comb_entries_p256\<rparr>)"

section \<open>Auxiliary facts\<close>

lemmas mont_defs = mont_add_def mont_sub_def mont_mult_def

lemmas fixture_defs = ctx7_def curve7_def store7_def point7_def all_ok_def

subsection \<open>Bytes and words\<close>

lemma be_val_snoc: "be_val (bs @ [c]) = 256 * be_val bs + unat c"
  by (simp add: be_val_def)

lemma length_be_bytes: "length (be_bytes n v) = n"
  by (induction n v rule: be_bytes.induct) simp_all

lemma be_val_be_bytes: "be_val (be_bytes n v) = v mod 256 ^ n"
proof (induction n arbitrary: v)
  case 0
  then show ?case by (simp add: be_val_def)
next
  case (Suc n)
  have "unat (of_nat v :: byte) = v mod 256" by (simp add: unat_of_nat)
  then show ?case
    by (simp add: be_val_snoc Suc.IH mod_mult2_eq)
qed

lemma be_val_less: "be_val bs < 256 ^ length bs"
proof (induction bs rule: rev_induct)
  case Nil
  then show ?case by (simp add: be_val_def)
next
  case (snoc c bs)
  have "unat c < 256" using unsigned_less[of c, where ?'a = nat] by simp
  with snoc show ?case by (simp add: be_val_snoc)
qed

lemma length_word_list_of: "length (word_list_of n v) = n"
  by (induction n v rule: word_list_of.induct) simp_all

lemma words_val_word_list_of: "words_val (word_list_of n v) = v mod 2 ^ (64 * n)"
proof (induction n arbitrary: v)
  case 0
  then show ?case by simp
next
  case (Suc n)
  have "unat (of_nat v :: u64) = v mod 2 ^ 64" by (simp add: unat_of_nat)
  then show ?case
    by (simp add: Suc.IH mod_mult2_eq power_add)
qed

lemma words_val_less: "words_val ws < 2 ^ (64 * length ws)"
proof (induction ws)
  case Nil
  then show ?case by simp
next
  case (Cons w ws)
  have "unat w < 2 ^ 64" using unsigned_less[of w, where ?'a = nat] by simp
  moreover have "words_val ws + 1 \<le> 2 ^ (64 * length ws)" using Cons by simp
  then have "2 ^ 64 * (words_val ws + 1) \<le> 2 ^ 64 * 2 ^ (64 * length ws)"
    by (rule mult_le_mono2)
  ultimately show ?case by (simp add: power_add)
qed

lemma blind_bound:
  fixes k n r :: nat
  assumes k: "k < 2 ^ (64 * sw)" and n: "n < 2 ^ (64 * ow)" and r: "r < 2 ^ 32"
  shows "k + n * r < 2 ^ (64 * (max (ow + 2) (sw + 2)))"
proof -
  let ?m = "max ow sw"
  have "(2::nat) ^ (64 * sw) \<le> 2 ^ (64 * ?m)" by (rule power_increasing) simp_all
  with k have k': "k < 2 ^ (64 * ?m)" by (rule less_le_trans)
  have "(2::nat) ^ (64 * ow) \<le> 2 ^ (64 * ?m)" by (rule power_increasing) simp_all
  with n have n': "n \<le> 2 ^ (64 * ?m)" by (meson less_le_trans less_imp_le)
  have "n * r \<le> 2 ^ (64 * ?m) * 2 ^ 32" using n' r by (intro mult_mono) simp_all
  with k' have "k + n * r < 2 ^ (64 * ?m) * (1 + 2 ^ 32)" by (simp add: algebra_simps)
  also have "\<dots> \<le> 2 ^ (64 * ?m) * 2 ^ 128" by (intro mult_le_mono2) simp
  also have "\<dots> = 2 ^ (64 * (?m + 2))" by (simp add: power_add algebra_simps)
  also have "?m + 2 = max (ow + 2) (sw + 2)" by simp
  finally show ?thesis .
qed

subsection \<open>Fermat's little theorem\<close>

lemma is_prime_divisor:
  assumes "is_prime p" "d dvd p" shows "d = 1 \<or> d = p"
proof -
  from assms have p: "1 < p" and nd: "\<forall>e. 2 \<le> e \<and> e < p \<longrightarrow> \<not> e dvd p"
    by (auto simp: is_prime_def list_all_iff)
  from \<open>d dvd p\<close> p have "d \<le> p" "d \<noteq> 0" by (auto intro: dvd_imp_le intro!: Nat.gr0I)
  with nd \<open>d dvd p\<close> show ?thesis
    by (metis One_nat_def Suc_1 Suc_leI le_neq_implies_less nat_neq_iff not_less_eq_eq less_one)
qed

lemma is_prime_coprime:
  assumes "is_prime p" "\<not> p dvd k" shows "coprime p k"
proof (rule coprimeI)
  fix c assume "c dvd p" "c dvd k"
  with is_prime_divisor[OF assms(1)] assms(2) show "is_unit c" by auto
qed

lemma is_prime_dvd_choose:
  assumes "is_prime p" "0 < k" "k < p" shows "p dvd (p choose k)"
proof -
  have "k * (p choose k) = p * ((p - 1) choose (k - 1))"
    using assms by (simp add: times_binomial_minus1_eq)
  then have "p dvd k * (p choose k)" by simp
  moreover have "coprime p k"
    using assms by (intro is_prime_coprime) (auto dest: dvd_imp_le)
  ultimately show ?thesis
    by (simp add: coprime_dvd_mult_right_iff)
qed

lemma freshman:
  assumes "is_prime p" shows "(a + 1) ^ p mod p = (a ^ p + 1) mod (p::nat)"
proof -
  have p: "1 < p" using assms by (simp add: is_prime_def)
  have "(a + 1) ^ p = (\<Sum>k\<le>p. (p choose k) * a ^ k)"
    using binomial[of a 1 p] by simp
  also have "{..p} = insert 0 (insert p {1..<p})" using p by auto
  also have "(\<Sum>k\<in>insert 0 (insert p {1..<p}). (p choose k) * a ^ k)
      = 1 + (a ^ p + (\<Sum>k\<in>{1..<p}. (p choose k) * a ^ k))"
    using p by simp
  finally have eq: "(a + 1) ^ p = (a ^ p + 1) + (\<Sum>k\<in>{1..<p}. (p choose k) * a ^ k)" by simp
  have "p dvd (\<Sum>k\<in>{1..<p}. (p choose k) * a ^ k)"
    by (rule dvd_sum) (auto intro!: dvd_mult2 is_prime_dvd_choose[OF assms])
  then show ?thesis unfolding eq by (metis mod_add_self2 dvd_def mod_mult_self2)
qed

lemma fermat_power:
  assumes "is_prime p" shows "a ^ p mod p = a mod (p::nat)"
proof (induction a)
  case 0
  then show ?case using assms by (simp add: is_prime_def power_0_left)
next
  case (Suc a)
  have "Suc a ^ p mod p = (a ^ p + 1) mod p" using freshman[OF assms, of a] by simp
  also have "\<dots> = (a ^ p mod p + 1) mod p" by (simp add: mod_simps)
  also have "\<dots> = (a + 1) mod p" unfolding Suc.IH by (simp add: mod_simps)
  finally show ?case by simp
qed

lemma fermat_little:
  assumes "is_prime p" "\<not> p dvd a" shows "a ^ (p - 1) mod p = (1::nat)"
proof -
  have p: "1 < p" using assms by (simp add: is_prime_def)
  have "a * a ^ (p - 1) = a ^ p" using p by (metis power_eq_if not_less_zero less_trans zero_less_one neq0_conv)
  then have "(a * a ^ (p - 1)) mod p = (a * 1) mod p" using fermat_power[OF assms(1), of a] by simp
  then have "int p dvd int (a * a ^ (p - 1)) - int (a * 1)"
    by (metis mod_eq_dvd_iff zmod_int)
  then have "int p dvd int a * (int (a ^ (p - 1)) - 1)" by (simp add: algebra_simps)
  moreover have "coprime (int p) (int a)" using is_prime_coprime[OF assms] by simp
  ultimately have "int p dvd int (a ^ (p - 1)) - 1" by (simp add: coprime_dvd_mult_right_iff)
  then have "int (a ^ (p - 1)) mod int p = 1 mod int p" by (simp add: mod_eq_dvd_iff)
  then show ?thesis using p by (metis of_nat_1 zmod_int of_nat_eq_iff mod_less)
qed


subsection \<open>The formulae compute the polynomials\<close>

lemma full_double_poly:
  "ec_full_double (x, y, z) b ctx =
     (dbl_X x y z b mod modulus ctx, dbl_Y x y z b mod modulus ctx, dbl_Z x y z b mod modulus ctx)"
  unfolding ec_full_double_def Let_def mont_defs prod.case dbl_X_def dbl_Y_def dbl_Z_def
  apply (simp only: mod_simps prod.inject)
  apply (intro conjI)
    apply (rule arg_cong[where f="\<lambda>t. t mod modulus ctx"], simp add: algebra_simps)
    apply (rule arg_cong[where f="\<lambda>t. t mod modulus ctx"], simp add: algebra_simps)
    apply (rule arg_cong[where f="\<lambda>t. t mod modulus ctx"], simp add: algebra_simps)
  done

lemma full_add_poly:
  "ec_full_add P Q b ctx =
     (add_X P Q b mod modulus ctx, add_Y P Q b mod modulus ctx, add_Z P Q b mod modulus ctx)"
proof -
  obtain x1 y1 z1 where P: "P = (x1, y1, z1)" by (cases P)
  obtain x2 y2 z2 where Q: "Q = (x2, y2, z2)" by (cases Q)
  show ?thesis
    unfolding P Q ec_full_add_def Let_def mont_defs prod.case add_X_def add_Y_def add_Z_def
    apply (simp only: mod_simps prod.inject)
    apply (intro conjI)
      apply (rule arg_cong[where f="\<lambda>t. t mod modulus ctx"], simp add: algebra_simps)
     apply (rule arg_cong[where f="\<lambda>t. t mod modulus ctx"], simp add: algebra_simps)
    apply (rule arg_cong[where f="\<lambda>t. t mod modulus ctx"], simp add: algebra_simps)
    done
qed

lemma add_self_eq_double:
  assumes "on_curve (x, y, z) b ctx"
  shows "ec_full_add (x, y, z) (x, y, z) b ctx = ec_full_double (x, y, z) b ctx"
proof -
  let ?p = "modulus ctx"
  let ?C = "x * x * x - 3 * x * z * z + b * z * z * z"
  have c: "(y * y * z) mod ?p = ?C mod ?p" using assms by (simp add: on_curve_def)
  have X: "add_X (x, y, z) (x, y, z) b = dbl_X x y z b"
    by (simp add: add_X_def dbl_X_def algebra_simps)
  have Y: "add_Y (x, y, z) (x, y, z) b = dbl_Y x y z b"
    by (simp add: add_Y_def dbl_Y_def algebra_simps)
  have Z1: "add_Z (x, y, z) (x, y, z) b = 2 * y * (y * y * z + 3 * ?C)"
    by (simp add: add_Z_def algebra_simps)
  have Z2: "dbl_Z x y z b = 2 * y * (y * y * z + 3 * (y * y * z))"
    by (simp add: dbl_Z_def algebra_simps)
  have "(2 * y * (y * y * z + 3 * ?C)) mod ?p = (2 * y * (y * y * z + 3 * (y * y * z))) mod ?p"
    by (intro mod_mult_cong mod_add_cong refl c[symmetric])
  then have Z: "add_Z (x, y, z) (x, y, z) b mod ?p = dbl_Z x y z b mod ?p"
    unfolding Z1 Z2 .
  show ?thesis by (simp add: full_add_poly full_double_poly X Y Z)
qed


subsection \<open>Inverses modulo a prime, and normalisation\<close>

lemma is_prime_gt1: "is_prime p \<Longrightarrow> 1 < p"
  by (simp add: is_prime_def)

lemma fermat_int:
  fixes c p :: int
  assumes "is_prime (nat p)" "c mod p \<noteq> 0"
  shows "c ^ nat (p - 1) mod p = 1"
proof -
  have p: "1 < p" using is_prime_gt1[OF assms(1)] by simp
  let ?a = "nat (c mod p)"
  have a: "int ?a = c mod p" using p by simp
  have "\<not> nat p dvd ?a"
  proof
    assume "nat p dvd ?a"
    then have "int (nat p) dvd int ?a" by (simp only: of_nat_dvd_iff)
    then have "p dvd c mod p" using p a by simp
    then have "p dvd c" by (simp add: dvd_mod_iff)
    with assms(2) show False by (simp add: dvd_eq_mod_eq_0)
  qed
  from fermat_little[OF assms(1) this]
  have "int (?a ^ (nat p - 1) mod nat p) = 1" by simp
  then have "(c mod p) ^ (nat p - 1) mod p = 1"
    using p a by (simp add: zmod_int)
  moreover have "nat p - 1 = nat (p - 1)" using p by simp
  ultimately show ?thesis by (simp add: power_mod)
qed

lemma fermat_inverse:
  fixes c p :: int
  assumes "is_prime (nat p)" "c mod p \<noteq> 0"
  shows "(c * (c ^ nat (p - 2) mod p)) mod p = 1"
proof -
  have p: "1 < p" using is_prime_gt1[OF assms(1)] by simp
  have "nat (p - 1) = Suc (nat (p - 2))" using p by simp
  then have "c * c ^ nat (p - 2) = c ^ nat (p - 1)" by simp
  then have "(c * (c ^ nat (p - 2) mod p)) mod p = c ^ nat (p - 1) mod p"
    by (simp add: mod_simps)
  then show ?thesis using fermat_int[OF assms] by simp
qed





lemma valid7: "valid_point store7 (point7 1 1 1)"
  by (simp add: valid_point_def fixture_defs in_field_def on_curve_def coords_def)

lemma is_prime_7: "is_prime 7"
  by (simp add: is_prime_def upt_rec)

subsection \<open>The point-at-infinity in the formulae and in the ladder\<close>

lemma full_double_pai:
  assumes "1 < modulus ctx"
  shows "ec_full_double (0, 1, 0) b ctx = (0, 1, 0)"
  using assms by (simp add: full_double_poly dbl_X_def dbl_Y_def dbl_Z_def)

lemma funpow_fixed: "f x = x \<Longrightarrow> (f ^^ n) x = x"
  by (induction n) simp_all

lemma full_add_pai_left:
  "ec_full_add (0, c, 0) (x, y, z) b ctx
     = ((c * c * y * x) mod modulus ctx, (c * c * y * y) mod modulus ctx,
        (c * c * y * z) mod modulus ctx)"
  by (simp add: full_add_poly add_X_def add_Y_def add_Z_def algebra_simps)



lemma dropWhile_zeros_one:
  "dropWhile (\<lambda>c. c = 0) (replicate m (0::byte) @ [1]) = [1]"
  by (induction m) simp_all









lemma ec_ws_scalar_blinded_on_failure:
  assumes "\<not> generator_path M p" and "seed \<noteq> 0" and "0 < len"
    and "A 0" "A 1" "A 2" "\<not> A 3"
  shows "ec_ws_scalar E M A (Some p) (Some k) len seed
           = Some (Some ERR_MEMORY,
               Some (p\<lparr>ec_x := mont_mult (ec_x p)
                                  (expand_seed E seed (bytes (mont_ctx (M (ec_ctx p)))))
                                  (mont_ctx (M (ec_ctx p))),
                         ec_y := mont_mult (ec_y p)
                                  (expand_seed E seed (bytes (mont_ctx (M (ec_ctx p)))))
                                  (mont_ctx (M (ec_ctx p))),
                         ec_z := mont_mult (ec_z p)
                                  (expand_seed E seed (bytes (mont_ctx (M (ec_ctx p)))))
                                  (mont_ctx (M (ec_ctx p)))\<rparr>))"
  using assms
  by (auto simp add: ec_ws_scalar_def Let_def generator_path_def blind_scalar_factor_def
        mont_bytes_def)


subsection \<open>The blinded scalar and the window ladder\<close>

lemma blind_scalar_factor_value:
  assumes A: "A 0" "A 1"
  shows "blind_scalar_factor A scalar scalar_len R_seed order order_words
      = (None,
         Some (be_bytes (max (order_words + 2) ((scalar_len + 7) div 8 + 2) * 8)
                 (be_val (take scalar_len scalar)
                    + words_val (take order_words order) * unat R_seed)),
         max (order_words + 2) ((scalar_len + 7) div 8 + 2) * 8)"
    and "be_val (take scalar_len scalar) + words_val (take order_words order) * unat R_seed
           < 2 ^ (64 * max (order_words + 2) ((scalar_len + 7) div 8 + 2))"
proof -
  let ?sw = "(scalar_len + 7) div 8"
  let ?nw = "max (order_words + 2) (?sw + 2)"
  let ?k = "be_val (take scalar_len scalar)"
  let ?n = "words_val (take order_words order)"
  let ?r = "unat R_seed"
  have "?k < 256 ^ length (take scalar_len scalar)" by (rule be_val_less)
  also have "\<dots> \<le> 256 ^ (8 * ?sw)" by (rule power_increasing) auto
  also have "\<dots> = 2 ^ (64 * ?sw)"
  proof -
    have "(256::nat) ^ (8 * ?sw) = (2 ^ 8) ^ (8 * ?sw)" by simp
    also have "\<dots> = 2 ^ (64 * ?sw)" unfolding power_mult[symmetric] by simp
    finally show ?thesis .
  qed
  finally have k: "?k < 2 ^ (64 * ?sw)" .
  have "?n < 2 ^ (64 * length (take order_words order))" by (rule words_val_less)
  also have "\<dots> \<le> 2 ^ (64 * order_words)" by (rule power_increasing) auto
  finally have n: "?n < 2 ^ (64 * order_words)" .
  have r: "?r < 2 ^ 32" using unsigned_less[of R_seed, where ?'a = nat] by simp
  show bound: "?k + ?n * ?r < 2 ^ (64 * ?nw)" by (rule blind_bound[OF k n r])
  have kk: "?k mod 2 ^ (64 * ?nw) = ?k"
    using bound by simp
  have ur: "unat (ucast R_seed :: u64) = ?r"
    by (simp add: unsigned_ucast_eq take_bit_nat_eq_self less_trans[OF r])
  show "blind_scalar_factor A scalar scalar_len R_seed order order_words
      = (None, Some (be_bytes (?nw * 8) (?k + ?n * ?r)), ?nw * 8)"
    using A bound
    by (simp add: blind_scalar_factor_def Let_def bytes_to_words_def addmul128_def
          words_to_bytes_def length_word_list_of words_val_word_list_of kk ur)
qed

lemma be_bytes_zero: "be_bytes n 0 = replicate n 0"
  by (induction n) (simp_all add: replicate_append_same)

lemma be_bytes_small:
  assumes "v < 256"
  shows "be_bytes (Suc n) v = replicate n 0 @ [of_nat v]"
  using assms by (simp add: be_bytes_zero)

lemma dropWhile_zeros_byte:
  assumes "c \<noteq> 0"
  shows "dropWhile (\<lambda>c. c = 0) (replicate m (0::byte) @ [c]) = [c]"
  using assms by (induction m) simp_all

lemma ec_ladder_byte:
  assumes g0: "gather px 0 = Some 0" "gather py 0 = Some 1" "gather pz 0 = Some 0"
    and g1: "gather px (unat c) = Some x" "gather py (unat c) = Some y"
            "gather pz (unat c) = Some z"
    and c: "unat c < 16"
    and p: "1 < modulus ctx"
  shows "ec_ladder (Suc (Suc 0)) (init_bit_window_lr 4 [c] (Suc 0)) px py pz (0, 1, 0) b ctx
      = Some (ec_full_add (0, 1, 0) (x, y, z) b ctx)"
proof -
  let ?bw = "init_bit_window_lr 4 [c] (Suc 0)"
  have d0: "get_next_digit_lr ?bw = (0, ?bw\<lparr>scan := Suc 0\<rparr>)"
    using c by (simp add: get_next_digit_lr_def init_bit_window_lr_def be_val_def)
  have d1: "get_next_digit_lr (?bw\<lparr>scan := Suc 0\<rparr>) = (unat c, ?bw\<lparr>scan := Suc (Suc 0)\<rparr>)"
    using c by (simp add: get_next_digit_lr_def init_bit_window_lr_def be_val_def)
  have dbl: "((\<lambda>Q. ec_full_double Q b ctx) ^^ WINDOW_SIZE_BITS) (0, 1, 0) = (0, 1, 0)"
    by (rule funpow_fixed) (rule full_double_pai[OF p])
  have a0: "ec_full_add (0, 1, 0) (0, 1, 0) b ctx = (0, 1, 0)"
    using p by (simp add: full_add_pai_left)
  show ?thesis
    by (simp only: ec_ladder.simps d0 d1 g0 g1 prod.case option.case Let_def dbl a0)
qed

lemma ec_scalar_byte:
  assumes "\<And>k. A k" and p: "1 < modulus ctx" and c: "c \<noteq> 0" "unat c < 16"
  shows "ec_scalar P3 P1 b (replicate m 0 @ [c]) (Suc m) seed A ctx
           = Some (None, ec_full_add (0, 1, 0) (ec_window P1 b ctx (unat c)) b ctx)"
proof -
  have nw: "nr_windows (init_bit_window_lr 4 [c] (Suc 0)) = Suc (Suc 0)"
    by (simp add: init_bit_window_lr_def)
  have tk: "take (Suc m) (replicate m (0::byte) @ [c]) = replicate m 0 @ [c]" by simp
  obtain x y z where w: "ec_window P1 b ctx (unat c) = (x, y, z)"
    by (cases "ec_window P1 b ctx (unat c)")
  have lad: "ec_ladder (Suc (Suc 0)) (init_bit_window_lr 4 [c] (Suc 0))
            (map (fst \<circ> ec_window P1 b ctx) [0..<16])
            (map (fst \<circ> snd \<circ> ec_window P1 b ctx) [0..<16])
            (map (snd \<circ> snd \<circ> ec_window P1 b ctx) [0..<16]) (0, 1, 0) b ctx
          = Some (ec_full_add (0, 1, 0) (x, y, z) b ctx)"
    using p c(2) by (intro ec_ladder_byte) (simp_all add: gather_def mont_set_def w)
  show ?thesis
    using assms(1) p
    unfolding ec_scalar_def
    by (simp add: WINDOW_SIZE_ITEMS_def WINDOW_SIZE_BITS_def scatter_def Let_def tk
          dropWhile_zeros_byte[OF c(1)] nw lad list_all_iff mont_set_def w
          del: ec_ladder.simps upt_Suc)
qed

lemma ec_ws_scalar_blinded:
  assumes ng: "\<not> generator_path M p" and sd: "seed \<noteq> 0" and len: "0 < len"
    and A: "\<And>k. A k"
  shows "ec_ws_scalar E M A (Some p) (Some k) len seed
     = map_option (\<lambda>(res, P). (res, Some (set_coords (blinded E M p seed) P)))
         (ec_scalar (coords (blinded E M p seed)) (coords (blinded E M p seed))
            (ctx_b (M (ec_ctx p)))
            (be_bytes (max (words (mont_ctx (M (ec_ctx p))) + 2) ((len + 7) div 8 + 2) * 8)
               (be_val (take len k)
                  + words_val (take (words (mont_ctx (M (ec_ctx p)))) (ctx_order (M (ec_ctx p))))
                      * unat (ucast seed :: 32 word)))
            (max (words (mont_ctx (M (ec_ctx p))) + 2) ((len + 7) div 8 + 2) * 8)
            (seed + 1) (\<lambda>i. A (5 + i)) (mont_ctx (M (ec_ctx p))))"
proof -
  have g: "(modulus_type (mont_ctx (M (ec_ctx p))) = ModulusP256 \<and> ec_x p = mont_Gx
            \<and> ec_y p = mont_Gy \<and> mont_is_one (ec_z p) (mont_ctx (M (ec_ctx p)))) = False"
    using ng by (simp add: generator_path_def Let_def)
  have bv: "blind_scalar_factor (\<lambda>i. A (3 + i)) k len (ucast seed)
              (ctx_order (M (ec_ctx p))) (words (mont_ctx (M (ec_ctx p))))
      = (None,
         Some (be_bytes (max (words (mont_ctx (M (ec_ctx p))) + 2) ((len + 7) div 8 + 2) * 8)
                 (be_val (take len k)
                    + words_val (take (words (mont_ctx (M (ec_ctx p)))) (ctx_order (M (ec_ctx p))))
                        * unat (ucast seed :: 32 word))),
         max (words (mont_ctx (M (ec_ctx p))) + 2) ((len + 7) div 8 + 2) * 8)"
    by (rule blind_scalar_factor_value(1)) (simp_all add: A)
  show ?thesis
    unfolding ec_ws_scalar_def
    using sd len
    by (simp only: option.case prod.case Let_def g if_False A[of 0] A[of 1] A[of 2]
          not_True_eq_False bv blinded_def[unfolded Let_def, symmetric])
       simp
qed

lemma window7:
  "ec_window (2, 2, 2) 3 ctx7 6 = (0, 0, 0)"
  "ec_window (2, 2, 2) 3 ctx7 7 = (0, 0, 0)"
proof -
  have n6: "(6::nat) = Suc (Suc (Suc (Suc (Suc (Suc 0)))))" by simp
  have n7: "(7::nat) = Suc (Suc (Suc (Suc (Suc (Suc (Suc 0))))))" by simp
  have one: "\<not> mont_is_one 2 ctx7" by (simp add: mont_is_one_def mont_set_def ctx7_def)
  have m: "modulus ctx7 = 7" by (simp add: ctx7_def)
  have w1: "ec_window (2, 2, 2) 3 ctx7 (Suc 0) = (2, 2, 2)" by (simp add: mont_copy_def)
  have w2: "ec_window (2, 2, 2) 3 ctx7 (Suc (Suc 0)) = (3, 5, 2)"
    by (subst ec_window.simps(3))
       (simp add: one w1 full_add_poly add_X_def add_Y_def add_Z_def m del: ec_window.simps)
  have w3: "ec_window (2, 2, 2) 3 ctx7 (Suc (Suc (Suc 0))) = (1, 0, 5)"
    by (subst ec_window.simps(3))
       (simp add: one w2 full_add_poly add_X_def add_Y_def add_Z_def m del: ec_window.simps)
  have w4: "ec_window (2, 2, 2) 3 ctx7 (Suc (Suc (Suc (Suc 0)))) = (3, 2, 2)"
    by (subst ec_window.simps(3))
       (simp add: one w3 full_add_poly add_X_def add_Y_def add_Z_def m del: ec_window.simps)
  have w5: "ec_window (2, 2, 2) 3 ctx7 (Suc (Suc (Suc (Suc (Suc 0))))) = (0, 0, 0)"
    by (subst ec_window.simps(3))
       (simp add: one w4 full_add_poly add_X_def add_Y_def add_Z_def m del: ec_window.simps)
  have w6: "ec_window (2, 2, 2) 3 ctx7 (Suc (Suc (Suc (Suc (Suc (Suc 0)))))) = (0, 0, 0)"
    by (subst ec_window.simps(3))
       (simp add: one w5 full_add_poly add_X_def add_Y_def add_Z_def m del: ec_window.simps)
  show "ec_window (2, 2, 2) 3 ctx7 6 = (0, 0, 0)"
    unfolding n6 by (rule w6)
  show "ec_window (2, 2, 2) 3 ctx7 7 = (0, 0, 0)"
    unfolding n7
    by (subst ec_window.simps(3))
       (simp add: one w6 full_add_poly add_X_def add_Y_def add_Z_def m del: ec_window.simps)
qed

lemma blinded7: "blinded extern_p256 store7 (point7 1 1 1) 1 = point7 2 2 2"
  by (simp add: blinded_def fixture_defs extern_p256_def mont_mult_def)

lemma not_generator7: "\<not> generator_path store7 (point7 x y z)"
  by (simp add: generator_path_def fixture_defs)

lemma be_bytes_24: "v < 256 \<Longrightarrow> be_bytes 24 v = replicate 23 0 @ [of_nat v]"
  using be_bytes_small[of v 23] by simp

lemma ec_scalar_byte7:
  assumes c: "c \<noteq> 0" "unat c < 16"
  shows "ec_scalar P3 P1 b (replicate 23 0 @ [c]) 24 sd (\<lambda>i. all_ok (5 + i)) ctx7
           = Some (None, ec_full_add (0, 1, 0) (ec_window P1 b ctx7 (unat c)) b ctx7)"
  using ec_scalar_byte[where A = "\<lambda>i. all_ok (5 + i)" and ctx = ctx7 and c = c and m = 23
          and ?P3.0 = P3 and ?P1.0 = P1 and b = b and seed = sd, OF _ _ c]
  by (simp add: all_ok_def ctx7_def)


lemma scalar_zero_blinded7:
  "ec_ws_scalar extern_p256 store7 all_ok (Some (point7 1 1 1)) (Some [0]) 1 1
     = Some (None, Some (point7 0 0 0))"
proof -
  have w: "words ctx7 = 1" by (simp add: ctx7_def)
  have r: "ec_full_add (0, 1, 0) (0, 0, 0) 3 ctx7 = (0, 0, 0)"
    by (simp add: full_add_pai_left)
  have sc: "ec_scalar (2, 2, 2) (2, 2, 2) 3 (replicate 23 0 @ [6]) 24 2
              (\<lambda>i. all_ok (5 + i)) ctx7 = Some (None, (0, 0, 0))"
    using ec_scalar_byte7[of 6 "(2, 2, 2)" "(2, 2, 2)" 3 2] by (simp add: window7 r)
  have bb: "be_bytes 24 6 = replicate 23 0 @ [6]"
    using be_bytes_24[of 6] by simp
  note t = ec_ws_scalar_blinded[where M = store7 and p = "point7 1 1 1" and A = all_ok
        and seed = 1 and len = 1 and k = "[0]" and E = extern_p256,
        OF not_generator7 one_neq_zero zero_less_one all_ok_def[THEN fun_cong, THEN iffD2, OF TrueI]]
  show ?thesis
    unfolding t blinded7
    by (simp add: store7_def curve7_def point7_def coords_def set_coords_def w be_val_def bb sc)
qed




subsection \<open>The comb of the generator\<close>

lemma mix_add_poly:
  assumes "\<not> (x2 = 0 \<and> y2 = 0)"
  shows "ec_mix_add P (x2, y2) b ctx =
     (add_X P (x2, y2, 1) b mod modulus ctx, add_Y P (x2, y2, 1) b mod modulus ctx,
      add_Z P (x2, y2, 1) b mod modulus ctx)"
proof -
  obtain x1 y1 z1 where P: "P = (x1, y1, z1)" by (cases P)
  have e: "(mont_is_zero x2 ctx \<and> mont_is_zero y2 ctx) = False"
    using assms by (simp add: mont_is_zero_def)
  show ?thesis
    unfolding P ec_mix_add_def Let_def mont_defs prod.case add_X_def add_Y_def add_Z_def e if_False
    apply (simp only: mod_simps prod.inject)
    apply (intro conjI)
      apply (rule arg_cong[where f="\<lambda>t. t mod modulus ctx"], simp add: algebra_simps)
     apply (rule arg_cong[where f="\<lambda>t. t mod modulus ctx"], simp add: algebra_simps)
    apply (rule arg_cong[where f="\<lambda>t. t mod modulus ctx"], simp add: algebra_simps)
    done
qed

lemma mix_add_pai_left:
  assumes "\<not> (x = 0 \<and> y = 0)"
  shows "ec_mix_add (0, 1, 0) (x, y) b ctx
     = ((y * x) mod modulus ctx, (y * y) mod modulus ctx, (y * 1) mod modulus ctx)"
  by (simp add: mix_add_poly[OF assms] add_X_def add_Y_def add_Z_def algebra_simps)

lemma ec_comb_zero_digits:
  assumes w: "0 < w" and tabs: "list_all (\<lambda>t. gather t 0 = Some (0, 0)) g"
  shows "0 < i \<Longrightarrow> i + n \<le> length g \<Longrightarrow>
     ec_comb n i \<lparr>window_size = w, nr_windows = nw, bw_exp = [1], scan = i\<rparr> g acc b ctx
       = Some acc"
proof (induction n arbitrary: i)
  case 0
  then show ?case by simp
next
  case (Suc n)
  have "0 < w * i" using w Suc.prems(1) by simp
  then have "(1::nat) < 2 ^ (w * i)" using one_less_power[of "2::nat" "w * i"] by simp
  then have d: "Suc 0 div 2 ^ (w * i) = 0" by simp
  have dig: "get_next_digit_rl \<lparr>window_size = w, nr_windows = nw, bw_exp = [1], scan = i\<rparr>
      = (0, \<lparr>window_size = w, nr_windows = nw, bw_exp = [1], scan = Suc i\<rparr>)"
    by (simp add: get_next_digit_rl_def be_val_def d)
  have i: "i < length g" using Suc.prems(2) by simp
  then have gi: "gather g i = Some (g ! i)" by (simp add: gather_def)
  have g0: "gather (g ! i) 0 = Some (0, 0)"
    using tabs i by (simp add: list_all_length)
  have acc: "ec_mix_add acc (0, 0) b ctx = acc"
    by (cases acc) (simp add: ec_mix_add_def mont_is_zero_def mont_copy_def)
  have "ec_comb n (Suc i) \<lparr>window_size = w, nr_windows = nw, bw_exp = [1], scan = Suc i\<rparr>
          g acc b ctx = Some acc"
    using Suc.prems by (intro Suc.IH) simp_all
  then show ?case
    by (simp add: dig gi g0 acc)
qed

lemma ec_scalar_g_p256_one:
  assumes ok: "comb_table_ok E g (x, y)" and nz: "\<not> (x = 0 \<and> y = 0)"
    and p: "1 < modulus ctx"
  shows "ec_scalar_g_p256 E b (replicate m 0 @ [1]) (Suc m) seed g ctx
     = Some (None, ((y * x) mod modulus ctx, (y * y) mod modulus ctx, (y * 1) mod modulus ctx))"
proof -
  let ?w = "p256_window_size E"
  let ?nw = "(8 + ?w - 1) div ?w"
  from ok have w: "0 < ?w" and lg: "length g = p256_n_tables E" and nt: "?nw \<le> p256_n_tables E"
    and tabs: "list_all (\<lambda>t. gather t 0 = Some (0, 0)) g"
    and g1: "case gather g 0 of None \<Rightarrow> False | Some t \<Rightarrow> gather t 1 = Some (x, y)"
    by (simp_all add: comb_table_ok_def)
  have "?w \<le> 8 + ?w - 1" by simp
  then have "?w div ?w \<le> ?nw" by (rule div_le_mono)
  then have "1 \<le> ?nw" using w by simp
  then obtain n where n: "?nw = Suc n" by (cases ?nw) simp_all
  from g1 obtain t where t: "gather g 0 = Some t" "gather t (Suc 0) = Some (x, y)"
    by (auto split: option.splits)
  have tk: "take (Suc m) (replicate m (0::byte) @ [1]) = replicate m 0 @ [1]" by simp
  have bw: "init_bit_window_rl ?w [1] (Suc 0)
             = \<lparr>window_size = ?w, nr_windows = Suc n, bw_exp = [1], scan = 0\<rparr>"
    using n by (simp add: init_bit_window_rl_def)
  have "(1::nat) < 2 ^ ?w" using w one_less_power[of "2::nat" ?w] by simp
  with w have dig: "get_next_digit_rl \<lparr>window_size = ?w, nr_windows = Suc n, bw_exp = [1], scan = 0\<rparr>
      = (1, \<lparr>window_size = ?w, nr_windows = Suc n, bw_exp = [1], scan = Suc 0\<rparr>)"
    by (simp add: get_next_digit_rl_def be_val_def)
  have rest: "ec_comb n (Suc 0) \<lparr>window_size = ?w, nr_windows = Suc n, bw_exp = [1], scan = Suc 0\<rparr>
          g acc b ctx = Some acc" for acc
    using nt n lg by (intro ec_comb_zero_digits[OF w tabs]) simp_all
  have comb: "ec_comb (Suc n) 0 \<lparr>window_size = ?w, nr_windows = Suc n, bw_exp = [1], scan = 0\<rparr>
          g (0, 1, 0) b ctx = Some (ec_mix_add (0, 1, 0) (x, y) b ctx)"
    by (simp add: dig t rest)
  have nle: "\<not> p256_n_tables E < Suc n" using nt n by simp
  show ?thesis
    using p nle
    by (simp add: ec_scalar_g_p256_def Let_def tk dropWhile_zeros_one bw comb mont_set_def
          mix_add_pai_left[OF nz] del: ec_comb.simps)
qed

lemma ec_ws_scalar_generator_one:
  assumes gp: "generator_path M p"
    and ok: "comb_table_ok E (case prot_g (M (ec_ctx p)) of None \<Rightarrow> [] | Some t \<Rightarrow> t)
               (ec_x p, ec_y p)"
    and p1: "1 < modulus (mont_ctx (M (ec_ctx p)))"
  shows "ec_ws_scalar E M all_ok (Some p) (Some (replicate m 0 @ [1])) (Suc m) seed
     = Some (None, Some (set_coords p
         ((ec_y p * ec_x p) mod modulus (mont_ctx (M (ec_ctx p))),
          (ec_y p * ec_y p) mod modulus (mont_ctx (M (ec_ctx p))),
          (ec_y p * ec_z p) mod modulus (mont_ctx (M (ec_ctx p))))))"
proof -
  let ?ctx = "mont_ctx (M (ec_ctx p))"
  from gp have g: "modulus_type ?ctx = ModulusP256 \<and> ec_x p = mont_Gx \<and> ec_y p = mont_Gy
      \<and> mont_is_one (ec_z p) ?ctx"
    by (simp add: generator_path_def Let_def)
  then have z: "ec_z p = 1" using p1 by (simp add: mont_is_one_def mont_set_def)
  from g have nz: "\<not> (ec_x p = 0 \<and> ec_y p = 0)" by (simp add: mont_Gx_def)
  note c = ec_scalar_g_p256_one[OF ok nz p1, of "ctx_b (M (ec_ctx p))" m "seed + 2"]
  have a: "all_ok 0" "all_ok 1" by (simp_all add: all_ok_def)
  show ?thesis
    unfolding ec_ws_scalar_def Let_def
    using g a by (simp add: c z del: replicate_Suc)
qed

text \<open>
  On the P-256 context the generator is a valid point on the generator path, and the
  scalar 1 returns it scaled by its Y coordinate, for every seed.
\<close>

lemma valid_generator_p256: "valid_point store_p256_comb generator_p256"
  by (simp add: valid_point_def store_p256_comb_def curve_p256_def ctx_p256_def
        generator_p256_def in_field_def on_curve_def coords_def mont_Gx_def mont_Gy_def
        p256_modulus_def)

lemma ec_ws_scalar_generator_one_p256:
  "ec_ws_scalar extern_p256 store_p256_comb all_ok (Some generator_p256) (Some [1]) 1 seed
     = Some (None, Some \<lparr> ec_ctx = 0, ec_x = (mont_Gy * mont_Gx) mod p256_modulus,
          ec_y = (mont_Gy * mont_Gy) mod p256_modulus, ec_z = mont_Gy \<rparr>)"
proof -
  have gp: "generator_path store_p256_comb generator_p256"
    by (simp add: generator_path_def store_p256_comb_def curve_p256_def ctx_p256_def
          generator_p256_def mont_is_one_def mont_set_def p256_modulus_def)
  have ok: "comb_table_ok extern_p256
      (case prot_g (store_p256_comb (ec_ctx generator_p256)) of None \<Rightarrow> [] | Some t \<Rightarrow> t)
      (ec_x generator_p256, ec_y generator_p256)"
    by (simp add: comb_table_ok_def store_p256_comb_def comb_entries_p256_def extern_p256_def
          gather_def generator_p256_def list_all_iff)
  have p1: "1 < modulus (mont_ctx (store_p256_comb (ec_ctx generator_p256)))"
    by (simp add: store_p256_comb_def curve_p256_def ctx_p256_def p256_modulus_def)
  have y: "mont_Gy mod p256_modulus = mont_Gy"
    by (simp add: mont_Gy_def p256_modulus_def)
  show ?thesis
    using ec_ws_scalar_generator_one[OF gp ok p1, of 0 seed]
    by (simp add: set_coords_def generator_p256_def store_p256_comb_def curve_p256_def
          ctx_p256_def y)
qed

section \<open>Properties\<close>

text \<open>
  C1. For every valid projective point P, the point-at-infinity included: adding P to
  itself with \<open>ec_ws_add\<close> and doubling P with \<open>ec_ws_double\<close> both succeed (the
  workplace being allocated) and leave the same coordinates; hence, after normalisation,
  the same affine coordinates.
\<close>

theorem ec_ws_add_self_is_double:
  assumes "valid_point M p" and "A 0"
  shows "\<exists>pa pd. ec_ws_add M A (Some p) (Some p) = (None, Some pa)
            \<and> ec_ws_double M A (Some p) = (None, Some pd)
            \<and> coords pa = coords pd
            \<and> normalized_xy M pa = normalized_xy M pd"
proof -
  let ?ec = "M (ec_ctx p)"
  have oc: "on_curve (ec_x p, ec_y p, ec_z p) (ctx_b ?ec) (mont_ctx ?ec)"
    using assms(1) by (simp add: valid_point_def Let_def coords_def)
  have eq: "ec_full_add (coords p) (coords p) (ctx_b ?ec) (mont_ctx ?ec)
          = ec_full_double (coords p) (ctx_b ?ec) (mont_ctx ?ec)"
    unfolding coords_def by (rule add_self_eq_double[OF oc])
  show ?thesis
    using assms(2) by (simp add: ec_ws_add_def ec_ws_double_def Let_def eq)
qed

theorem ec_ws_add_self_is_double_witness:
  "valid_point store7 (point7 1 1 1) \<and> all_ok 0
   \<and> (\<exists>pa pd. ec_ws_add store7 all_ok (Some (point7 1 1 1)) (Some (point7 1 1 1)) = (None, Some pa)
            \<and> ec_ws_double store7 all_ok (Some (point7 1 1 1)) = (None, Some pd)
            \<and> coords pa = coords pd
            \<and> normalized_xy store7 pa = normalized_xy store7 pd)"
  using ec_ws_add_self_is_double[of store7 "point7 1 1 1" all_ok] valid7
  by (simp add: all_ok_def)




text \<open>
  C3. For every projective point P and every Montgomery context: when the affine operand
  of \<open>ec_mix_add\<close> is (0, 0), the encoding of the point-at-infinity, the function takes
  its early return and the output coordinates are those of P, unchanged.
\<close>

theorem ec_mix_add_affine_pai:
  "ec_mix_add (x1, y1, z1) (0, 0) b ctx = (x1, y1, z1)"
  by (simp add: ec_mix_add_def mont_is_zero_def mont_copy_def)

text \<open>
  C4. The projective-to-affine conversion yields (0, 0) when \<open>Z = 0\<close>, and otherwise
  \<open>(X * A mod p, Y * A mod p)\<close> with \<open>A = Z ^ (p - 2) mod p\<close>, the inverse of \<open>Z\<close> by
  Fermat's little theorem: for a prime \<open>p\<close> and \<open>0 < Z < p\<close>, \<open>Z * A mod p = 1\<close>.
  \<open>ec_ws_get_xy\<close> exports the bytes of these two values, and \<open>ec_ws_normalize\<close> stores them
  (with \<open>Z = 1\<close>) for a point that is not the point-at-infinity; it does not call the
  conversion for a point with \<open>Z = 0\<close>, which it leaves as it is.
\<close>

theorem ec_projective_to_affine_spec:
  "ec_projective_to_affine (X, Y, 0) ctx = (0, 0)
   \<and> (Z \<noteq> 0 \<longrightarrow>
        ec_projective_to_affine (X, Y, Z) ctx
          = ((X * mont_inv_prime Z ctx) mod modulus ctx, (Y * mont_inv_prime Z ctx) mod modulus ctx))
   \<and> mont_inv_prime Z ctx = Z ^ nat (modulus ctx - 2) mod modulus ctx
   \<and> (is_prime (nat (modulus ctx)) \<and> 0 < Z \<and> Z < modulus ctx \<longrightarrow>
        (Z * mont_inv_prime Z ctx) mod modulus ctx = 1)
   \<and> (len = bytes (mont_ctx (M (ec_ctx p))) \<and> A 0 \<and> A 1 \<and> A 2 \<and> A 3 \<and> A 4 \<longrightarrow>
        ec_ws_get_xy M A (Some xb) (Some yb) len (Some p)
          = (None,
             Some (mont_to_bytes (fst (ec_projective_to_affine (ec_x p, ec_y p, ec_z p)
                     (mont_ctx (M (ec_ctx p))))) (mont_ctx (M (ec_ctx p)))),
             Some (mont_to_bytes (snd (ec_projective_to_affine (ec_x p, ec_y p, ec_z p)
                     (mont_ctx (M (ec_ctx p))))) (mont_ctx (M (ec_ctx p))))))
   \<and> (A 0 \<and> ec_z p \<noteq> 0 \<longrightarrow>
        ec_ws_normalize M A (Some p)
          = (None, Some (p\<lparr>ec_x := fst (ec_projective_to_affine (ec_x p, ec_y p, ec_z p)
                                       (mont_ctx (M (ec_ctx p)))),
                            ec_y := snd (ec_projective_to_affine (ec_x p, ec_y p, ec_z p)
                                       (mont_ctx (M (ec_ctx p)))),
                            ec_z := 1 mod modulus (mont_ctx (M (ec_ctx p)))\<rparr>)))
   \<and> (A 0 \<and> ec_z p = 0 \<longrightarrow> ec_ws_normalize M A (Some p) = (None, Some p))"
proof (intro conjI impI)
  show "ec_projective_to_affine (X, Y, 0) ctx = (0, 0)"
    by (simp add: ec_projective_to_affine_def mont_is_zero_def mont_set_def)
  show "ec_projective_to_affine (X, Y, Z) ctx
          = ((X * mont_inv_prime Z ctx) mod modulus ctx, (Y * mont_inv_prime Z ctx) mod modulus ctx)"
    if "Z \<noteq> 0"
    using that by (simp add: ec_projective_to_affine_def mont_is_zero_def mont_mult_def Let_def)
  show "mont_inv_prime Z ctx = Z ^ nat (modulus ctx - 2) mod modulus ctx"
    by (simp add: mont_inv_prime_def)
  show "(Z * mont_inv_prime Z ctx) mod modulus ctx = 1"
    if "is_prime (nat (modulus ctx)) \<and> 0 < Z \<and> Z < modulus ctx"
    unfolding mont_inv_prime_def using that by (intro fermat_inverse) simp_all
  show "ec_ws_get_xy M A (Some xb) (Some yb) len (Some p)
          = (None,
             Some (mont_to_bytes (fst (ec_projective_to_affine (ec_x p, ec_y p, ec_z p)
                     (mont_ctx (M (ec_ctx p))))) (mont_ctx (M (ec_ctx p)))),
             Some (mont_to_bytes (snd (ec_projective_to_affine (ec_x p, ec_y p, ec_z p)
                     (mont_ctx (M (ec_ctx p))))) (mont_ctx (M (ec_ctx p)))))"
    if "len = bytes (mont_ctx (M (ec_ctx p))) \<and> A 0 \<and> A 1 \<and> A 2 \<and> A 3 \<and> A 4"
    using that by (simp add: ec_ws_get_xy_def Let_def mont_bytes_def coords_def split: prod.splits)
  show "ec_ws_normalize M A (Some p)
          = (None, Some (p\<lparr>ec_x := fst (ec_projective_to_affine (ec_x p, ec_y p, ec_z p)
                                       (mont_ctx (M (ec_ctx p)))),
                            ec_y := snd (ec_projective_to_affine (ec_x p, ec_y p, ec_z p)
                                       (mont_ctx (M (ec_ctx p)))),
                            ec_z := 1 mod modulus (mont_ctx (M (ec_ctx p)))\<rparr>))"
    if "A 0 \<and> ec_z p \<noteq> 0"
    using that by (simp add: ec_ws_normalize_def Let_def mont_is_zero_def coords_def mont_set_def
        split: prod.splits)
  show "ec_ws_normalize M A (Some p) = (None, Some p)" if "A 0 \<and> ec_z p = 0"
    using that by (simp add: ec_ws_normalize_def Let_def mont_is_zero_def)
qed

theorem ec_projective_to_affine_spec_witness:
  "ec_projective_to_affine (6, 4, 0) ctx7 = (0, 0)
   \<and> ec_projective_to_affine (6, 4, 2) ctx7 = (3, 2)
   \<and> mont_inv_prime 2 ctx7 = 4
   \<and> is_prime (nat (modulus ctx7))
   \<and> (2 * mont_inv_prime 2 ctx7) mod modulus ctx7 = 1
   \<and> ec_ws_get_xy store7 all_ok (Some []) (Some []) 1 (Some (point7 6 4 2))
        = (None, Some [3], Some [2])
   \<and> ec_ws_normalize store7 all_ok (Some (point7 6 4 2)) = (None, Some (point7 3 2 1))
   \<and> ec_ws_normalize store7 all_ok (Some (point7 6 4 0)) = (None, Some (point7 6 4 0))"
proof -
  note t = ec_projective_to_affine_spec[of 6 4 ctx7 2 1 store7 "point7 6 4 2" all_ok "[]" "[]"]
  have pr: "is_prime (nat (modulus ctx7))" using is_prime_7 by (simp add: ctx7_def)
  have inv: "mont_inv_prime 2 ctx7 = 4" by (simp add: mont_inv_prime_def ctx7_def)
  have aff: "ec_projective_to_affine (6, 4, 2) ctx7 = (3, 2)"
    using t[THEN conjunct2, THEN conjunct1] by (simp add: inv) (simp add: ctx7_def)
  have one: "(2 * mont_inv_prime 2 ctx7) mod modulus ctx7 = 1"
    using t[THEN conjunct2, THEN conjunct2, THEN conjunct2, THEN conjunct1] pr
    by (simp add: ctx7_def)
  have ctx: "mont_ctx (store7 (ec_ctx (point7 6 4 2))) = ctx7"
    by (simp add: store7_def curve7_def)
  have xyz: "(ec_x (point7 6 4 2), ec_y (point7 6 4 2), ec_z (point7 6 4 2)) = (6, 4, 2)"
    by (simp add: point7_def)
  have gxy: "ec_ws_get_xy store7 all_ok (Some []) (Some []) 1 (Some (point7 6 4 2))
        = (None, Some [3], Some [2])"
    using t[THEN conjunct2, THEN conjunct2, THEN conjunct2, THEN conjunct2, THEN conjunct1]
    unfolding ctx xyz aff by (simp add: all_ok_def ctx7_def mont_to_bytes_def)
  have nrm: "ec_ws_normalize store7 all_ok (Some (point7 6 4 2)) = (None, Some (point7 3 2 1))"
    using t[THEN conjunct2, THEN conjunct2, THEN conjunct2, THEN conjunct2, THEN conjunct2,
            THEN conjunct1]
    unfolding ctx xyz aff by (simp add: all_ok_def ctx7_def point7_def)
  have nrm0: "ec_ws_normalize store7 all_ok (Some (point7 6 4 0)) = (None, Some (point7 6 4 0))"
    using ec_projective_to_affine_spec[of 6 4 ctx7 2 1 store7 "point7 6 4 0" all_ok "[]" "[]",
            THEN conjunct2, THEN conjunct2, THEN conjunct2, THEN conjunct2, THEN conjunct2,
            THEN conjunct2]
    by (simp add: all_ok_def point7_def)
  show ?thesis
    using t[THEN conjunct1] aff inv pr one gxy nrm nrm0 by simp
qed

text \<open>
  C5 (amended). For two points of the same context, the workplace being allocated,
  \<open>ec_ws_cmp\<close> returns 0 when both points have \<open>Z = 0\<close>, or neither has and
  \<open>X1 * Z2 = X2 * Z1\<close> and \<open>Y1 * Z2 = Y2 * Z1\<close> hold modulo \<open>p\<close>; in every other case, and so
  whenever exactly one of the points has \<open>Z = 0\<close>, it returns \<open>ERR_VALUE\<close>. For points of
  different contexts it returns \<open>ERR_EC_CURVE\<close>.
\<close>

theorem ec_ws_cmp_spec:
  assumes "A 0"
  shows "(ec_ctx pa = ec_ctx pb \<longrightarrow>
           ec_ws_cmp M A (Some pa) (Some pb) =
             (if ec_z pa = 0 \<and> ec_z pb = 0
                 \<or> ec_z pa \<noteq> 0 \<and> ec_z pb \<noteq> 0
                   \<and> (ec_x pa * ec_z pb) mod modulus (mont_ctx (M (ec_ctx pa)))
                       = (ec_x pb * ec_z pa) mod modulus (mont_ctx (M (ec_ctx pa)))
                   \<and> (ec_y pa * ec_z pb) mod modulus (mont_ctx (M (ec_ctx pa)))
                       = (ec_y pb * ec_z pa) mod modulus (mont_ctx (M (ec_ctx pa)))
              then None else Some ERR_VALUE))
       \<and> (ec_ctx pa = ec_ctx pb \<and> (ec_z pa = 0) \<noteq> (ec_z pb = 0) \<longrightarrow>
            ec_ws_cmp M A (Some pa) (Some pb) = Some ERR_VALUE)
       \<and> (ec_ctx pa \<noteq> ec_ctx pb \<longrightarrow> ec_ws_cmp M A (Some pa) (Some pb) = Some ERR_EC_CURVE)"
  using assms
  by (auto simp: ec_ws_cmp_def Let_def mont_is_zero_def mont_is_equal_def mont_mult_def)

theorem ec_ws_cmp_spec_witness:
  "all_ok 0 \<and> ec_ws_cmp store7 all_ok (Some (point7 2 2 2)) (Some (point7 1 1 1)) = None
   \<and> ec_ws_cmp store7 all_ok (Some (point7 2 2 2)) (Some (point7 1 6 1)) = Some ERR_VALUE
   \<and> ec_ws_cmp store7 all_ok (Some (point7 0 1 0)) (Some (point7 0 3 0)) = None
   \<and> ec_ws_cmp store7 all_ok (Some (point7 0 0 0)) (Some (point7 1 1 1)) = Some ERR_VALUE
   \<and> ec_ws_cmp store7 all_ok (Some (point7 2 2 2)) (Some ((point7 1 1 1)\<lparr>ec_ctx := 1\<rparr>))
        = Some ERR_EC_CURVE"
proof -
  have A: "all_ok 0" by (simp add: all_ok_def)
  have m: "modulus (mont_ctx (store7 c)) = 7" for c by (simp add: fixture_defs)
  have 1: "ec_ws_cmp store7 all_ok (Some (point7 2 2 2)) (Some (point7 1 1 1)) = None"
    using ec_ws_cmp_spec[where A = all_ok and pa = "point7 2 2 2" and pb = "point7 1 1 1"
            and M = store7, OF A, THEN conjunct1]
    by (simp add: m) (simp add: point7_def)
  have 2: "ec_ws_cmp store7 all_ok (Some (point7 2 2 2)) (Some (point7 1 6 1)) = Some ERR_VALUE"
    using ec_ws_cmp_spec[where A = all_ok and pa = "point7 2 2 2" and pb = "point7 1 6 1"
            and M = store7, OF A, THEN conjunct1]
    by (simp add: m) (simp add: point7_def)
  have 3: "ec_ws_cmp store7 all_ok (Some (point7 0 1 0)) (Some (point7 0 3 0)) = None"
    using ec_ws_cmp_spec[where A = all_ok and pa = "point7 0 1 0" and pb = "point7 0 3 0"
            and M = store7, OF A, THEN conjunct1]
    by (simp add: m) (simp add: point7_def)
  have 4: "ec_ws_cmp store7 all_ok (Some (point7 0 0 0)) (Some (point7 1 1 1)) = Some ERR_VALUE"
    using ec_ws_cmp_spec[where A = all_ok and pa = "point7 0 0 0" and pb = "point7 1 1 1"
            and M = store7, OF A, THEN conjunct2, THEN conjunct1]
    by (simp add: point7_def)
  have 5: "ec_ws_cmp store7 all_ok (Some (point7 2 2 2)) (Some ((point7 1 1 1)\<lparr>ec_ctx := 1\<rparr>))
        = Some ERR_EC_CURVE"
    using ec_ws_cmp_spec[where A = all_ok and pa = "point7 2 2 2"
            and pb = "(point7 1 1 1)\<lparr>ec_ctx := 1\<rparr>" and M = store7, OF A,
            THEN conjunct2, THEN conjunct2]
    by (simp add: point7_def)
  show ?thesis using A 1 2 3 4 5 by simp
qed

text \<open>
  The claim as stated fails when one point is the triple (0, 0, 0) and the other is not
  at infinity: the cross products are all zero, and \<open>ec_ws_cmp\<close> returns \<open>ERR_VALUE\<close>.
\<close>

theorem ec_ws_cmp_counterexample:
  "\<not> ((ec_ws_cmp store7 all_ok (Some (point7 0 0 0)) (Some (point7 1 1 1)) = None) =
       (ec_z (point7 0 0 0) = 0 \<and> ec_z (point7 1 1 1) = 0
        \<or> (ec_x (point7 0 0 0) * ec_z (point7 1 1 1)) mod modulus ctx7
             = (ec_x (point7 1 1 1) * ec_z (point7 0 0 0)) mod modulus ctx7
          \<and> (ec_y (point7 0 0 0) * ec_z (point7 1 1 1)) mod modulus ctx7
             = (ec_y (point7 1 1 1) * ec_z (point7 0 0 0)) mod modulus ctx7))"
  by (simp add: fixture_defs ec_ws_cmp_def mont_is_zero_def mont_is_equal_def mont_mult_def)

text \<open>
  C6. For a context with modulus \<open>p > 1\<close>, inputs \<open>x\<close>, \<open>y\<close> of a valid length
  (\<open>0 < len \<le> bytes\<close>) holding numbers below \<open>p\<close>, and every allocation succeeding:
  \<open>ec_ws_new_point\<close> with \<open>(x, y) = (0, 0)\<close> succeeds and stores (0, 1, 0); for any other
  \<open>(x, y)\<close> it succeeds with \<open>(x, y, 1)\<close> exactly when \<open>y\<^sup>2 = x\<^sup>3 - 3x + b\<close> modulo \<open>p\<close>, and
  otherwise returns \<open>ERR_EC_POINT\<close> and leaves the handle NULL.
\<close>

theorem ec_ws_new_point_spec:
  assumes "1 < modulus (mont_ctx (M c))"
    and "0 < len" and "len \<le> bytes (mont_ctx (M c))"
    and "A 0" "A 1" "A 2" "A 3" "A 4"
    and "int (be_val (take len xb)) < modulus (mont_ctx (M c))"
    and "int (be_val (take len yb)) < modulus (mont_ctx (M c))"
  shows "ec_ws_new_point M A (Some cell) (Some xb) (Some yb) len (Some c) =
     Some (if be_val (take len xb) = 0 \<and> be_val (take len yb) = 0
           then (None, Some (Live \<lparr> ec_ctx = c, ec_x = 0, ec_y = 1, ec_z = 0 \<rparr>))
           else if (int (be_val (take len yb)) * int (be_val (take len yb))) mod modulus (mont_ctx (M c))
                   = (int (be_val (take len xb)) * int (be_val (take len xb)) * int (be_val (take len xb))
                        - 3 * int (be_val (take len xb)) + ctx_b (M c)) mod modulus (mont_ctx (M c))
           then (None, Some (Live \<lparr> ec_ctx = c, ec_x = int (be_val (take len xb)),
                                     ec_y = int (be_val (take len yb)), ec_z = 1 \<rparr>))
           else (Some ERR_EC_POINT, Some Null))"
proof -
  let ?p = "modulus (mont_ctx (M c))"
  let ?X = "int (be_val (take len xb))"
  let ?Y = "int (be_val (take len yb))"
  have X: "?X mod ?p = ?X" and Y: "?Y mod ?p = ?Y" using assms by simp_all
  have c: "(((?X * ?X mod ?p * ?X mod ?p - ?X) mod ?p - ?X) mod ?p - ?X) mod ?p
             = (?X * ?X * ?X - 3 * ?X) mod ?p"
    by (simp add: mod_simps algebra_simps)
  have c': "((((?X * ?X mod ?p * ?X mod ?p - ?X) mod ?p - ?X) mod ?p - ?X) mod ?p + ctx_b (M c)) mod ?p
             = (?X * ?X * ?X - 3 * ?X + ctx_b (M c)) mod ?p"
    by (metis c mod_add_left_eq)
  show ?thesis
    using assms(1-8)
    by (simp add: ec_ws_new_point_def mont_from_bytes_def Let_def X Y mont_is_zero_def
          mont_set_def mont_is_equal_def mont_mult_def mont_sub_def mont_add_def c')
qed


theorem ec_ws_new_point_spec_witness:
  "1 < modulus (mont_ctx (store7 0)) \<and> (0::nat) < 1 \<and> 1 \<le> bytes (mont_ctx (store7 0))
   \<and> all_ok 0 \<and> all_ok 1 \<and> all_ok 2 \<and> all_ok 3 \<and> all_ok 4
   \<and> int (be_val (take 1 [1])) < modulus (mont_ctx (store7 0))
   \<and> ec_ws_new_point store7 all_ok (Some Null) (Some [1]) (Some [1]) 1 (Some 0)
        = Some (None, Some (Live (point7 1 1 1)))
   \<and> ec_ws_new_point store7 all_ok (Some Null) (Some [1]) (Some [2]) 1 (Some 0)
        = Some (Some ERR_EC_POINT, Some Null)
   \<and> ec_ws_new_point store7 all_ok (Some Null) (Some [0]) (Some [0]) 1 (Some 0)
        = Some (None, Some (Live (point7 0 1 0)))"
  using ec_ws_new_point_spec[of store7 0 1 all_ok "[1]" "[1]" Null]
        ec_ws_new_point_spec[of store7 0 1 all_ok "[1]" "[2]" Null]
        ec_ws_new_point_spec[of store7 0 1 all_ok "[0]" "[0]" Null]
  by (simp add: fixture_defs be_val_def)

text \<open>
  C7. \<open>ec_ws_scalar\<close> can return an error with the point changed. On the fast path of the
  P-256 generator the output is set to the point-at-infinity before the number of windows
  is tested: for a scalar with a non-zero leading byte and more windows than the comb has
  subtables, the function returns \<open>ERR_VALUE\<close> and the stored coordinates are (0, 1, 0), no
  longer those of the generator.
\<close>

theorem ec_ws_scalar_error_mutates:
  assumes "modulus_type (mont_ctx (M (ec_ctx p))) = ModulusP256"
    and "1 < modulus (mont_ctx (M (ec_ctx p)))"
    and "ec_x p = mont_Gx" "ec_y p = mont_Gy" "ec_z p = 1"
    and "A 0" "A 1" and "c \<noteq> 0"
    and "p256_n_tables E < (length (c # ks) * 8 + p256_window_size E - 1) div p256_window_size E"
  shows "ec_ws_scalar E M A (Some p) (Some (c # ks)) (length (c # ks)) seed
           = Some (Some ERR_VALUE, Some (p\<lparr>ec_x := 0, ec_y := 1, ec_z := 0\<rparr>))
         \<and> p\<lparr>ec_x := 0, ec_y := 1, ec_z := 0\<rparr> \<noteq> p"
proof
  have g: "ec_scalar_g_p256 E b (c # ks) (Suc (length ks)) sd g (mont_ctx (M (ec_ctx p)))
      = Some (Some ERR_VALUE, (0, 1, 0))" for b sd g
    using assms(2,8,9)
    by (simp add: ec_scalar_g_p256_def Let_def init_bit_window_rl_def mont_set_def)
  show "ec_ws_scalar E M A (Some p) (Some (c # ks)) (length (c # ks)) seed
           = Some (Some ERR_VALUE, Some (p\<lparr>ec_x := 0, ec_y := 1, ec_z := 0\<rparr>))"
    using assms(1-7)
    by (simp add: ec_ws_scalar_def Let_def mont_is_one_def mont_set_def g set_coords_def)
  have "ec_x (p\<lparr>ec_x := 0, ec_y := 1, ec_z := 0\<rparr>) \<noteq> ec_x p"
    using assms(3) by (simp add: mont_Gx_def)
  then show "p\<lparr>ec_x := 0, ec_y := 1, ec_z := 0\<rparr> \<noteq> p" by metis
qed

theorem ec_ws_scalar_error_mutates_witness:
  "modulus_type (mont_ctx ((\<lambda>c. curve_p256) (ec_ctx generator_p256))) = ModulusP256
   \<and> 1 < modulus (mont_ctx ((\<lambda>c. curve_p256) (ec_ctx generator_p256)))
   \<and> ec_x generator_p256 = mont_Gx \<and> ec_y generator_p256 = mont_Gy \<and> ec_z generator_p256 = 1
   \<and> all_ok 0 \<and> all_ok 1 \<and> (1::byte) \<noteq> 0
   \<and> p256_n_tables extern_p256
        < (length ((1::byte) # replicate 32 0) * 8 + p256_window_size extern_p256 - 1)
            div p256_window_size extern_p256
   \<and> ec_ws_scalar extern_p256 (\<lambda>c. curve_p256) all_ok (Some generator_p256)
        (Some (1 # replicate 32 0)) (length ((1::byte) # replicate 32 0)) 4095
        = Some (Some ERR_VALUE, Some (generator_p256\<lparr>ec_x := 0, ec_y := 1, ec_z := 0\<rparr>))
   \<and> generator_p256\<lparr>ec_x := 0, ec_y := 1, ec_z := 0\<rparr> \<noteq> generator_p256"
proof -
  have h: "modulus_type (mont_ctx ((\<lambda>c. curve_p256) (ec_ctx generator_p256))) = ModulusP256"
    "1 < modulus (mont_ctx ((\<lambda>c. curve_p256) (ec_ctx generator_p256)))"
    "ec_x generator_p256 = mont_Gx" "ec_y generator_p256 = mont_Gy" "ec_z generator_p256 = 1"
    "all_ok 0" "all_ok 1" "(1::byte) \<noteq> 0"
    "p256_n_tables extern_p256
        < (length ((1::byte) # replicate 32 0) * 8 + p256_window_size extern_p256 - 1)
            div p256_window_size extern_p256"
    by (simp_all add: curve_p256_def ctx_p256_def generator_p256_def all_ok_def extern_p256_def
          p256_modulus_def)
  show ?thesis
    using ec_ws_scalar_error_mutates[OF h, of 4095] h by simp
qed

text \<open>
  C8. \<open>ec_ws_new_context\<close> tests three of its four pointers: with a NULL order and the
  other pointers valid it never returns \<open>ERR_NULL\<close>. With \<open>len = 0\<close> it returns
  \<open>ERR_NOT_ENOUGH_DATA\<close>; with a positive length it goes on to allocate and fill the
  context.
\<close>

theorem ec_ws_new_context_null_order:
  "fst (ec_ws_new_context E A (Some cell) (Some md) (Some b) None len seed) \<noteq> Some ERR_NULL
   \<and> ec_ws_new_context E A (Some cell) (Some md) (Some b) None 0 seed
       = (Some ERR_NOT_ENOUGH_DATA, Some Null)
   \<and> (\<exists>r. ec_ws_new_context E all_ok (Some cell) (Some [7]) (Some [3]) None 1 seed
          = (None, Some (Live r)))"
  by (auto simp: ec_ws_new_context_def mont_context_init_def mont_from_bytes_def
        ec_scramble_g_p256_def Let_def all_ok_def be_val_def p256_modulus_def
        p384_modulus_def p521_modulus_def
        split: sum.splits option.splits if_splits)

text \<open>
  C9. When \<open>blind_scalar_factor\<close> succeeds, the blinded scalar is a byte string of exactly
  \<open>max order_words scalar_words + 2\<close> words (8 bytes each), its reported length is that
  length, and its big-endian value is \<open>k + R * n\<close>, for \<open>k\<close> the value of the scalar,
  \<open>n\<close> the value of the \<open>order_words\<close> words of the order and \<open>R\<close> the 32-bit factor. No
  carry is lost: the sum is below \<open>2 ^ (64 * (max order_words scalar_words + 2))\<close>.
\<close>

theorem blind_scalar_factor_spec:
  assumes "fst (blind_scalar_factor A scalar scalar_len R_seed order order_words) = None"
  shows "\<exists>bs. blind_scalar_factor A scalar scalar_len R_seed order order_words
                 = (None, Some bs, length bs)
             \<and> length bs = 8 * (max order_words ((scalar_len + 7) div 8) + 2)
             \<and> be_val bs = be_val (take scalar_len scalar)
                             + unat R_seed * words_val (take order_words order)"
proof -
  let ?sw = "(scalar_len + 7) div 8"
  let ?nw = "max (order_words + 2) (?sw + 2)"
  let ?k = "be_val (take scalar_len scalar)"
  let ?n = "words_val (take order_words order)"
  let ?r = "unat R_seed"
  from assms have A: "A 0" "A 1"
    by (auto simp: blind_scalar_factor_def Let_def split: if_splits)
  have "?k < 256 ^ length (take scalar_len scalar)" by (rule be_val_less)
  also have "\<dots> \<le> 256 ^ (8 * ?sw)" by (rule power_increasing) auto
  also have "\<dots> = 2 ^ (64 * ?sw)"
  proof -
    have "(256::nat) = 2 ^ 8" by simp
    then show ?thesis by (metis power_mult mult.assoc mult.commute numeral_times_numeral semiring_norm(12,13,14,15))
  qed
  finally have k: "?k < 2 ^ (64 * ?sw)" .
  have "?n < 2 ^ (64 * length (take order_words order))" by (rule words_val_less)
  also have "\<dots> \<le> 2 ^ (64 * order_words)" by (rule power_increasing) auto
  finally have n: "?n < 2 ^ (64 * order_words)" .
  have r: "?r < 2 ^ 32" using unsigned_less[of R_seed, where ?'a = nat] by simp
  have bound: "?k + ?n * ?r < 2 ^ (64 * ?nw)" by (rule blind_bound[OF k n r])
  have kk: "?k mod 2 ^ (64 * ?nw) = ?k"
    using bound by simp
  have ur: "unat (ucast R_seed :: u64) = ?r" by (simp add: unsigned_ucast_eq take_bit_nat_eq_self unsigned_less[of R_seed, where ?'a = nat, simplified] less_trans[OF r])
  have p256: "(256::nat) ^ (?nw * 8) = 2 ^ (64 * ?nw)"
  proof -
    have "(256::nat) ^ (?nw * 8) = (2 ^ 8) ^ (?nw * 8)" by simp
    also have "\<dots> = 2 ^ (64 * ?nw)" unfolding power_mult[symmetric] by (simp add: algebra_simps)
    finally show ?thesis .
  qed
  have out: "blind_scalar_factor A scalar scalar_len R_seed order order_words
      = (None, Some (be_bytes (?nw * 8) (?k + ?n * ?r)), ?nw * 8)"
    using A bound
    by (simp add: blind_scalar_factor_def Let_def bytes_to_words_def addmul128_def
          words_to_bytes_def length_word_list_of words_val_word_list_of kk ur)
  have nw: "?nw = max order_words ?sw + 2" by simp
  have len: "length (be_bytes (?nw * 8) (?k + ?n * ?r)) = 8 * (max order_words ?sw + 2)"
    unfolding length_be_bytes nw by simp
  have "be_val (be_bytes (?nw * 8) (?k + ?n * ?r)) = (?k + ?n * ?r) mod 2 ^ (64 * ?nw)"
    by (simp only: be_val_be_bytes p256)
  also have "\<dots> = ?k + ?r * ?n" using bound by (simp add: mult.commute)
  finally have val: "be_val (be_bytes (?nw * 8) (?k + ?n * ?r)) = ?k + ?r * ?n" .
  show ?thesis
    unfolding out using len val by (simp add: length_be_bytes)
qed


theorem blind_scalar_factor_spec_witness:
  "fst (blind_scalar_factor all_ok [1] 1 2 [7] 1) = None
   \<and> (\<exists>bs. blind_scalar_factor all_ok [1] 1 2 [7] 1 = (None, Some bs, length bs)
         \<and> length bs = 24 \<and> be_val bs = 15)"
  using blind_scalar_factor_spec[of all_ok "[1]" 1 2 "[7]" 1]
  by (simp add: blind_scalar_factor_def all_ok_def be_val_def)

text \<open>
  C10. \<open>ec_ws_copy\<close> has no context test: for two non-NULL points it never returns
  \<open>ERR_EC_CURVE\<close>, and the destination takes the context reference and the three
  coordinates of the source, but only when the source's context has no more words than
  the buffers of the destination hold. The coordinates are copied with the word count of
  the source's context into buffers that are never resized: when the source's context has
  more words, the copy writes past them and the behaviour is undefined. The instances
  below copy between the curve modulo 7 (one word a coordinate) and P-256 (four words): the
  narrow point into the wide one succeeds, the wide point into the narrow one has no
  defined result.
\<close>

theorem ec_ws_copy_any_context:
  "(words (mont_ctx (M (ec_ctx s))) \<le> cap \<longrightarrow>
      ec_ws_copy M cap (Some d) (Some s) = Some (None, Some s)
      \<and> (\<exists>r. ec_ws_copy M cap (Some d) (Some s) = Some (None, Some r)
             \<and> ec_ctx r = ec_ctx s \<and> ec_x r = ec_x s \<and> ec_y r = ec_y s \<and> ec_z r = ec_z s))
   \<and> (cap < words (mont_ctx (M (ec_ctx s))) \<longrightarrow> ec_ws_copy M cap (Some d) (Some s) = None)
   \<and> ec_ws_copy M cap (Some d) (Some s) \<noteq> Some (Some ERR_EC_CURVE, Some d)"
  by (simp add: ec_ws_copy_def mont_copy_def Let_def)

theorem ec_ws_copy_any_context_witness:
  "ec_ctx (point7 1 1 1) \<noteq> ec_ctx generator_p256'
   \<and> words (mont_ctx (store2 (ec_ctx (point7 1 1 1))))
        \<le> words (mont_ctx (store2 (ec_ctx generator_p256')))
   \<and> ec_ws_copy store2 (words (mont_ctx (store2 (ec_ctx generator_p256'))))
        (Some generator_p256') (Some (point7 1 1 1))
        = Some (None, Some (point7 1 1 1))
   \<and> words (mont_ctx (store2 (ec_ctx (point7 1 1 1))))
        < words (mont_ctx (store2 (ec_ctx generator_p256')))
   \<and> ec_ws_copy store2 (words (mont_ctx (store2 (ec_ctx (point7 1 1 1)))))
        (Some (point7 1 1 1)) (Some generator_p256') = None"
proof -
  have c: "ec_ctx (point7 1 1 1) \<noteq> ec_ctx generator_p256'"
    by (simp add: generator_p256'_def point7_def)
  have w: "words (mont_ctx (store2 (ec_ctx (point7 1 1 1))))
             < words (mont_ctx (store2 (ec_ctx generator_p256')))"
    by (simp add: store2_def generator_p256'_def generator_p256_def fixture_defs ctx_p256_def
          curve_p256_def)
  have 1: "ec_ws_copy store2 (words (mont_ctx (store2 (ec_ctx generator_p256'))))
        (Some generator_p256') (Some (point7 1 1 1))
        = Some (None, Some (point7 1 1 1))"
    using ec_ws_copy_any_context[of store2 "point7 1 1 1"
            "words (mont_ctx (store2 (ec_ctx generator_p256')))" generator_p256',
            THEN conjunct1, THEN mp, OF less_imp_le[OF w], THEN conjunct1] .
  have 2: "ec_ws_copy store2 (words (mont_ctx (store2 (ec_ctx (point7 1 1 1)))))
        (Some (point7 1 1 1)) (Some generator_p256') = None"
    using ec_ws_copy_any_context[of store2 generator_p256'
            "words (mont_ctx (store2 (ec_ctx (point7 1 1 1))))" "point7 1 1 1",
            THEN conjunct2, THEN conjunct1, THEN mp, OF w] .
  show ?thesis
    using c less_imp_le[OF w] 1 w 2 by (intro conjI)
qed

end
